theory Spec2Isabelle
  imports Complex_Main "HOL-Library.AList"
begin

section \<open>Python strings\<close>

text \<open>
  A Python \<open>str\<close> is a sequence of Unicode code points. Isabelle's \<open>char\<close> has
  eight bits, so a string is modelled as a list of code points (\<open>nat\<close>); \<open>u\<close> embeds an
  ASCII literal. Code points used by the program beyond ASCII:
  178 = superscript two, 241 = n with tilde, 383 = long s (U+017F).
\<close>

type_synonym ustr = "nat list"

definition u :: "string \<Rightarrow> ustr" where
  "u s = map of_char s"

text \<open>\<open>str.isspace\<close>, which is also the class \<open>\s\<close> of \<open>re\<close> on \<open>str\<close> patterns.\<close>

definition is_space :: "nat \<Rightarrow> bool" where
  "is_space c \<longleftrightarrow>
     (9 \<le> c \<and> c \<le> 13) \<or> (28 \<le> c \<and> c \<le> 32) \<or> c = 133 \<or> c = 160 \<or> c = 5760
     \<or> (8192 \<le> c \<and> c \<le> 8202) \<or> c = 8232 \<or> c = 8233 \<or> c = 8239 \<or> c = 8287
     \<or> c = 12288"

text \<open>
  The class \<open>\d\<close>. Python's \<open>\d\<close> also accepts the decimal digits of other scripts
  (category Nd); the model knows the ASCII digits only, so a text holding other
  decimal digits is outside the model.
\<close>

definition is_digit :: "nat \<Rightarrow> bool" where
  "is_digit c \<longleftrightarrow> 48 \<le> c \<and> c \<le> 57"

definition strip :: "ustr \<Rightarrow> ustr" where
  "strip s = rev (dropWhile is_space (rev (dropWhile is_space s)))"

definition rstrip_dot :: "ustr \<Rightarrow> ustr" where
  "rstrip_dot s = rev (dropWhile (\<lambda>c. c = 46) (rev s))"

text \<open>\<open>s.replace(a, '')\<close> and \<open>s.replace(a, b)\<close> for single characters \<open>a\<close>, \<open>b\<close>.\<close>

definition remove_char :: "nat \<Rightarrow> ustr \<Rightarrow> ustr" where
  "remove_char a s = filter (\<lambda>c. c \<noteq> a) s"

definition replace_char :: "nat \<Rightarrow> nat \<Rightarrow> ustr \<Rightarrow> ustr" where
  "replace_char a b s = map (\<lambda>c. if c = a then b else c) s"

text \<open>
  \<open>str.lower\<close>, one code point at a time: exact on the code points below 256 and on
  the five beyond whose lower case has a code point below 256 (U+0130, which lowers to
  two code points, U+0178, U+1E9E, the Kelvin sign and the Angstrom sign). Every other
  code point is returned unchanged: its lower case is not a character that the program
  compares against.
\<close>

definition lower_cp :: "nat \<Rightarrow> ustr" where
  "lower_cp c =
     (if 65 \<le> c \<and> c \<le> 90 then [c + 32]
      else if 192 \<le> c \<and> c \<le> 222 \<and> c \<noteq> 215 then [c + 32]
      else if c = 304 then [105, 775]
      else if c = 376 then [255]
      else if c = 7838 then [223]
      else if c = 8490 then [107]
      else if c = 8491 then [229]
      else [c])"

definition lower :: "ustr \<Rightarrow> ustr" where
  "lower s = concat (map lower_cp s)"

fun startswith :: "ustr \<Rightarrow> ustr \<Rightarrow> bool" where
  "startswith s [] = True"
| "startswith [] (p # ps) = False"
| "startswith (c # cs) (p # ps) = (c = p \<and> startswith cs ps)"

text \<open>\<open>sub in s\<close> on strings.\<close>

fun contains :: "ustr \<Rightarrow> ustr \<Rightarrow> bool" where
  "contains [] sub = (sub = [])"
| "contains (c # cs) sub = (startswith (c # cs) sub \<or> contains cs sub)"

text \<open>\<open>str(n)\<close> for a non-negative integer and for an integer.\<close>

fun str_nat :: "nat \<Rightarrow> ustr" where
  "str_nat n = (if n < 10 then [48 + n] else str_nat (n div 10) @ [48 + n mod 10])"

definition str_int :: "int \<Rightarrow> ustr" where
  "str_int i = (if i < 0 then 45 # str_nat (nat (- i)) else str_nat (nat i))"

text \<open>\<open>int(s)\<close> on a string of ASCII digits.\<close>

definition digits_val :: "ustr \<Rightarrow> nat" where
  "digits_val s = foldl (\<lambda>a c. 10 * a + (c - 48)) 0 s"

section \<open>The regular expressions of the program\<close>

text \<open>
  A backtracking matcher in the style of \<open>re\<close>: \<open>rx_run ci r s caps\<close> lists, in the
  order in which the engine tries them, every way of matching \<open>r\<close> at the start of \<open>s\<close>,
  each as the unconsumed rest and the groups captured so far. The first element is the
  match \<open>re\<close> reports. \<open>ci\<close> is the flag \<open>re.IGNORECASE\<close>.
\<close>

datatype rx =
    Eps
  | Lit nat
  | Digit
  | Space
  | OneOf "nat list"
  | Seq rx rx
  | Alt rx rx
  | Star rx
  | Grp nat rx

text \<open>
  The simple lower-case mapping that \<open>re\<close> applies to the subject under IGNORECASE,
  exact wherever the code point or its result lies below 256.
\<close>

definition sre_lower :: "nat \<Rightarrow> nat" where
  "sre_lower c =
     (if 65 \<le> c \<and> c \<le> 90 then c + 32
      else if 192 \<le> c \<and> c \<le> 222 \<and> c \<noteq> 215 then c + 32
      else if c = 304 then 105
      else if c = 376 then 255
      else if c = 7838 then 223
      else if c = 8490 then 107
      else if c = 8491 then 229
      else c)"

text \<open>
  The extra case equivalences of \<open>re\<close>, for the characters that occur in the program's
  patterns: under IGNORECASE a literal \<open>i\<close> also matches the dotless i (305) and a
  literal \<open>s\<close> also matches the long s (383).
\<close>

definition ci_class :: "nat \<Rightarrow> nat list" where
  "ci_class p = (if p = 105 then [105, 305] else if p = 115 then [115, 383] else [p])"

definition lit_match :: "bool \<Rightarrow> nat \<Rightarrow> nat \<Rightarrow> bool" where
  "lit_match ci p c = (if ci then sre_lower c \<in> set (ci_class (sre_lower p)) else c = p)"

type_synonym caps = "nat \<rightharpoonup> ustr"

function rx_run :: "bool \<Rightarrow> rx \<Rightarrow> ustr \<Rightarrow> caps \<Rightarrow> (ustr \<times> caps) list" where
  "rx_run ci Eps s caps = [(s, caps)]"
| "rx_run ci (Lit p) s caps =
     (case s of [] \<Rightarrow> [] | c # cs \<Rightarrow> if lit_match ci p c then [(cs, caps)] else [])"
| "rx_run ci Digit s caps =
     (case s of [] \<Rightarrow> [] | c # cs \<Rightarrow> if is_digit c then [(cs, caps)] else [])"
| "rx_run ci Space s caps =
     (case s of [] \<Rightarrow> [] | c # cs \<Rightarrow> if is_space c then [(cs, caps)] else [])"
| "rx_run ci (OneOf ps) s caps =
     (case s of [] \<Rightarrow> [] | c # cs \<Rightarrow> if c \<in> set ps then [(cs, caps)] else [])"
| "rx_run ci (Seq a b) s caps =
     concat (map (\<lambda>(s', caps'). rx_run ci b s' caps') (rx_run ci a s caps))"
| "rx_run ci (Alt a b) s caps = rx_run ci a s caps @ rx_run ci b s caps"
| "rx_run ci (Star a) s caps =
     concat (map (\<lambda>(s', caps').
        if length s' < length s then rx_run ci (Star a) s' caps' else [])
        (rx_run ci a s caps)) @ [(s, caps)]"
| "rx_run ci (Grp n a) s caps =
     map (\<lambda>(s', caps'). (s', caps'(n \<mapsto> take (length s - length s') s)))
       (rx_run ci a s caps)"
  by pat_completeness auto
termination
  by (relation "measures [\<lambda>(ci, r, s, caps). size r, \<lambda>(ci, r, s, caps). length s]") auto

text \<open>Greedy \<open>r?\<close>, \<open>r+\<close>, and a literal string.\<close>

definition Opt :: "rx \<Rightarrow> rx" where
  "Opt r = Alt r Eps"

definition Plus :: "rx \<Rightarrow> rx" where
  "Plus r = Seq r (Star r)"

fun Lits :: "ustr \<Rightarrow> rx" where
  "Lits [] = Eps"
| "Lits (c # cs) = Seq (Lit c) (Lits cs)"

text \<open>
  \<open>pattern.search\<close>: the first match, scanning the start position from left to right;
  the result is the text before the match, the rest after it and the groups.
  \<open>findall\<close>: all matches, each search resuming where the previous match ended (a
  match that consumed nothing resumes one character later; the program's patterns
  never match the empty string).
\<close>

fun search :: "bool \<Rightarrow> rx \<Rightarrow> ustr \<Rightarrow> (ustr \<times> caps) option" where
  "search ci r [] = (case rx_run ci r [] Map.empty of [] \<Rightarrow> None | m # _ \<Rightarrow> Some m)"
| "search ci r (c # cs) =
     (case rx_run ci r (c # cs) Map.empty of
        [] \<Rightarrow> search ci r cs
      | m # _ \<Rightarrow> Some m)"

function findall :: "bool \<Rightarrow> rx \<Rightarrow> ustr \<Rightarrow> caps list" where
  "findall ci r [] =
     (case rx_run ci r [] Map.empty of [] \<Rightarrow> [] | (s', caps) # _ \<Rightarrow> [caps])"
| "findall ci r (c # cs) =
     (case rx_run ci r (c # cs) Map.empty of
        [] \<Rightarrow> findall ci r cs
      | (s', caps) # _ \<Rightarrow>
          if length s' < length (c # cs) then caps # findall ci r s'
          else caps # findall ci r cs)"
  by pat_completeness auto
termination
  by (relation "measure (\<lambda>(ci, r, s). length s)") auto

text \<open>\<open>m.group(n)\<close> as \<open>findall\<close> reports it: the empty string for a group that took no part.\<close>

definition grp :: "caps \<Rightarrow> nat \<Rightarrow> ustr" where
  "grp caps n = (case caps n of None \<Rightarrow> [] | Some w \<Rightarrow> w)"

text \<open>\<open>\d+(?:[\.,]\d+)*\<close>\<close>

definition number_rx :: rx where
  "number_rx = Seq (Plus Digit) (Star (Seq (OneOf [46, 44]) (Plus Digit)))"

text \<open>\<open>\d+\.?\d+\<close>, whole match as group 0\<close>

definition amount_rx :: rx where
  "amount_rx = Grp 0 (Seq (Plus Digit) (Seq (Opt (Lit 46)) (Plus Digit)))"

text \<open>\<open>(USD)|(ARS)|(\$)\<close>\<close>

definition currency_rx :: rx where
  "currency_rx = Alt (Grp 1 (Lits (u ''USD''))) (Alt (Grp 2 (Lits (u ''ARS''))) (Grp 3 (Lit 36)))"

text \<open>
  The feature pattern of \<open>parse_features\<close>, compiled with IGNORECASE:
  \<open>(\d+(?:[\.,]\d+)*)\s*(m^2|m2|amb\.?|dorm\.?|ba~nos?|ba~no|coch\.?)(?:\s*(tot\.?|totales|cub\.?|cubiertos|terr\.?|terreno))?\<close>
  (written here with \<open>^2\<close> for the superscript two and \<open>~n\<close> for the n with tilde).
\<close>

definition unit_rx :: rx where
  "unit_rx =
     Alt (Lits (u ''m'' @ [178]))
    (Alt (Lits (u ''m2''))
    (Alt (Seq (Lits (u ''amb'')) (Opt (Lit 46)))
    (Alt (Seq (Lits (u ''dorm'')) (Opt (Lit 46)))
    (Alt (Seq (Lits (u ''ba'' @ [241] @ u ''o'')) (Opt (Lit 115)))
    (Alt (Lits (u ''ba'' @ [241] @ u ''o''))
         (Seq (Lits (u ''coch'')) (Opt (Lit 46))))))))"

definition qualifier_rx :: rx where
  "qualifier_rx =
     Alt (Seq (Lits (u ''tot'')) (Opt (Lit 46)))
    (Alt (Lits (u ''totales''))
    (Alt (Seq (Lits (u ''cub'')) (Opt (Lit 46)))
    (Alt (Lits (u ''cubiertos''))
    (Alt (Seq (Lits (u ''terr'')) (Opt (Lit 46)))
         (Lits (u ''terreno''))))))"

definition feature_rx :: rx where
  "feature_rx =
     Seq (Grp 1 number_rx)
    (Seq (Star Space)
    (Seq (Grp 2 unit_rx)
         (Opt (Seq (Star Space) (Grp 3 qualifier_rx)))))"

section \<open>Values, exceptions and documents\<close>

text \<open>
  The values a card holds: \<open>None\<close>, an \<open>int\<close> or a \<open>str\<close>. An exception is its type
  name and its message. A dictionary is an association list in insertion order, written
  with \<open>AList.update\<close> and read with \<open>map_of\<close>.
\<close>

datatype pyval = PNone | PInt int | PStr ustr

datatype exn = PyExc ustr ustr

type_synonym card = "(ustr \<times> pyval) list"

definition IndexError :: exn where
  "IndexError = PyExc (u ''IndexError'') (u ''list index out of range'')"

definition TypeError :: exn where
  "TypeError = PyExc (u ''TypeError'') (u ''argument of type 'NoneType' is not iterable'')"

text \<open>Truthiness, \<open>a or b\<close> and \<open>d.get(k)\<close>.\<close>

fun truthy :: "pyval \<Rightarrow> bool" where
  "truthy PNone = False"
| "truthy (PInt i) = (i \<noteq> 0)"
| "truthy (PStr s) = (s \<noteq> [])"

definition py_or :: "pyval \<Rightarrow> pyval \<Rightarrow> pyval" where
  "py_or a b = (if truthy a then a else b)"

definition dict_get :: "card \<Rightarrow> ustr \<Rightarrow> pyval" where
  "dict_get d k = (case map_of d k of None \<Rightarrow> PNone | Some v \<Rightarrow> v)"

text \<open>
  JSON as \<open>json.loads\<close> returns it. A float is carried by its \<open>str()\<close> rendering, which
  is all the program reads of it besides its truthiness. The keys of a dictionary are
  pairwise different.
\<close>

datatype json =
    JNull
  | JBool bool
  | JInt int
  | JFloat ustr
  | JStr ustr
  | JList "json list"
  | JDict "(ustr \<times> json) list"

text \<open>
  A listing card as the page parser hands it over: \<open>posting_attr\<close> is what
  \<open>get_attribute_list('data-to-posting')\<close> returns (a one-element list holding the
  attribute; for a card without the attribute, \<open>[None]\<close> or the empty list, depending on
  the release of the HTML library), and \<open>data_qa\<close> lists, in document order, the
  \<open>data-qa\<close> label and the \<open>get_text()\<close> of every element that carries one.
\<close>

record post =
  posting_attr :: "pyval list"
  data_qa :: "(ustr \<times> ustr) list"

text \<open>
  A parsed page, reduced to the queries the program makes of it:
  \<^item> \<open>h1s\<close>: for every \<open>h1\<close>, its \<open>.text\<close> and its \<open>get_text(" ", strip=True)\<close>;
  \<^item> \<open>posts\<close>: the \<open>div\<close> elements with a \<open>data-posting-type\<close> attribute;
  \<^item> \<open>ld_scripts\<close>: for every \<open>application/ld+json\<close> script, what \<open>json.loads\<close>
    makes of its text (\<open>None\<close> when the text is empty or does not parse);
  \<^item> \<open>icon_features\<close>: for every \<open>li.icon-feature\<close>, the class list of its first
    \<open>i\<close> element (\<open>None\<close> when it has none) and its \<open>get_text(" ", strip=True)\<close>;
  \<^item> \<open>blocks\<close>: the \<open>get_text(" ", strip=True)\<close> of every \<open>li\<close>, \<open>div\<close> and
    \<open>section\<close>, in document order.
  The browser maps a URL to the parsed page or to the exception the fetch raised.
\<close>

record soup =
  h1s :: "(ustr \<times> ustr) list"
  posts :: "post list"
  ld_scripts :: "json option list"
  icon_features :: "(ustr list option \<times> ustr) list"
  blocks :: "ustr list"

type_synonym browser = "ustr \<Rightarrow> exn + soup"

section \<open>scraper.py\<close>

definition m2 :: ustr where
  "m2 = u ''m'' @ [178]"

definition banos :: ustr where
  "banos = u ''ba'' @ [241] @ u ''os''"

definition bano :: ustr where
  "bano = u ''ba'' @ [241] @ u ''o''"

definition FEATURE_UNIT_DICT :: "(ustr \<times> ustr) list" where
  "FEATURE_UNIT_DICT =
     [(m2, u ''square_meters_area''), (u ''amb'', u ''rooms''), (u ''dorm'', u ''bedrooms''),
      (bano, u ''bathrooms''), (banos, u ''bathrooms''), (u ''coch'', u ''parking'')]"

definition LABEL_DICT :: "(ustr \<times> ustr) list" where
  "LABEL_DICT =
     [(u ''POSTING_CARD_PRICE'', u ''price''), (u ''expensas'', u ''expenses''),
      (u ''POSTING_CARD_LOCATION'', u ''location''),
      (u ''POSTING_CARD_DESCRIPTION'', u ''description'')]"

text \<open>
  \<open>parse_currency_value\<close>: the body of the \<open>try\<close>, with each \<open>[0]\<close> on an empty list as
  the IndexError it raises, and the function itself, whose bare \<open>except\<close> turns every
  exception into \<open>(text, None)\<close>. \<open>int()\<close> is taken without the interpreter's limit on the
  number of digits.
\<close>

definition parse_currency_try :: "ustr \<Rightarrow> exn + (int \<times> ustr)" where
  "parse_currency_try text =
     (case findall False amount_rx text of
        [] \<Rightarrow> Inl IndexError
      | m # _ \<Rightarrow>
          let currency_value = int (digits_val (remove_char 46 (grp m 0))) in
          (case findall False currency_rx text of
             [] \<Rightarrow> Inl IndexError
           | t # _ \<Rightarrow>
               (case filter (\<lambda>x. x \<noteq> []) [grp t 1, grp t 2, grp t 3] of
                  [] \<Rightarrow> Inl IndexError
                | currency_type # _ \<Rightarrow> Inr (currency_value, currency_type))))"

definition parse_currency_value :: "ustr \<Rightarrow> pyval \<times> pyval" where
  "parse_currency_value text =
     (case parse_currency_try text of
        Inl e \<Rightarrow> (PStr text, PNone)
      | Inr (currency_value, currency_type) \<Rightarrow> (PInt currency_value, PStr currency_type))"

definition parse_text :: "ustr \<Rightarrow> ustr" where
  "parse_text text = strip (remove_char 9 (remove_char 10 text))"

definition normalize_number :: "ustr \<Rightarrow> ustr" where
  "normalize_number raw = replace_char 44 46 (remove_char 46 (strip raw))"

definition normalize_unit :: "ustr \<Rightarrow> ustr" where
  "normalize_unit raw =
     (let r = rstrip_dot (lower (strip raw)) in
      if r \<in> {m2, u ''m2''} then m2
      else if r \<in> {u ''amb'', u ''ambs''} then u ''amb''
      else if r \<in> {u ''dorm'', u ''dorms''} then u ''dorm''
      else if r \<in> {bano, banos} then banos
      else if r \<in> {u ''coch'', u ''cocheras''} then u ''coch''
      else r)"

definition area_kind :: "ustr \<Rightarrow> ustr option" where
  "area_kind qualifier =
     (if qualifier = [] then None
      else let q = rstrip_dot (lower (strip qualifier)) in
        if startswith q (u ''tot'') then Some (u ''square_meters_total'')
        else if startswith q (u ''cub'') then Some (u ''square_meters_covered'')
        else if startswith q (u ''terr'') then Some (u ''square_meters_land'')
        else None)"

definition features_appearance0 :: "(ustr \<times> nat) list" where
  "features_appearance0 =
     [(u ''square_meters_area'', 0), (u ''square_meters_total'', 0),
      (u ''square_meters_covered'', 0), (u ''square_meters_land'', 0),
      (u ''rooms'', 0), (u ''bedrooms'', 0), (u ''bathrooms'', 0), (u ''parking'', 0)]"

text \<open>The base key of one match \<open>(raw_value, raw_unit, raw_qual)\<close>.\<close>

definition base_key_of :: "ustr \<Rightarrow> ustr \<Rightarrow> ustr" where
  "base_key_of raw_unit raw_qual =
     (let unit = normalize_unit raw_unit;
          base_key =
            (if unit = m2 then
               (case area_kind raw_qual of
                  None \<Rightarrow> Some (u ''square_meters_area'')
                | Some k \<Rightarrow> Some k)
             else map_of FEATURE_UNIT_DICT unit)
      in case base_key of
           None \<Rightarrow> unit
         | Some k \<Rightarrow> if k = [] then unit else k)"

text \<open>The body of the loop over the matches; the state is \<open>features\<close> and \<open>features_appearance\<close>.\<close>

fun features_loop ::
  "(ustr \<times> ustr \<times> ustr) list \<Rightarrow> (ustr \<times> ustr) list \<times> (ustr \<times> nat) list
     \<Rightarrow> (ustr \<times> ustr) list \<times> (ustr \<times> nat) list" where
  "features_loop [] st = st"
| "features_loop ((raw_value, raw_unit, raw_qual) # ms) (features, features_appearance) =
     (let v = normalize_number raw_value;
          base_key = base_key_of raw_unit raw_qual
      in case map_of features_appearance base_key of
           None \<Rightarrow> features_loop ms (AList.update base_key v features, features_appearance)
         | Some idx \<Rightarrow>
             features_loop ms
               (AList.update (base_key @ u ''_'' @ str_nat idx) v features,
                AList.update base_key (idx + 1) features_appearance))"

definition feature_tokens :: "ustr \<Rightarrow> (ustr \<times> ustr \<times> ustr) list" where
  "feature_tokens text = map (\<lambda>c. (grp c 1, grp c 2, grp c 3)) (findall True feature_rx text)"

definition parse_features :: "ustr \<Rightarrow> (ustr \<times> ustr) list" where
  "parse_features text = fst (features_loop (feature_tokens text) ([], features_appearance0))"

text \<open>
  \<open>parse_estate\<close>: \<open>[0]\<close> on the attribute list raises IndexError when the list is empty;
  the loop over the labelled elements fills the dictionary.
\<close>

definition the_label :: "ustr \<Rightarrow> ustr" where
  "the_label label = (case map_of LABEL_DICT label of None \<Rightarrow> [] | Some l \<Rightarrow> l)"

fun estate_loop :: "(ustr \<times> ustr) list \<Rightarrow> card \<Rightarrow> card" where
  "estate_loop [] estate = estate"
| "estate_loop ((label, text) # ds) estate =
     (if startswith label (u ''CARD_'') \<or> label \<in> {u ''POSTING_CARD_PUBLISHER''} then
        estate_loop ds estate
      else if label \<in> set [u ''POSTING_CARD_PRICE'', u ''expensas''] then
        (let (currency_value, currency_type) = parse_currency_value text in
         estate_loop ds
           (AList.update (the_label label @ u ''_type'') currency_type
             (AList.update (the_label label @ u ''_value'') currency_value estate)))
      else if label \<in> set [u ''POSTING_CARD_LOCATION'', u ''POSTING_CARD_DESCRIPTION''] then
        estate_loop ds (AList.update (the_label label) (PStr (parse_text text)) estate)
      else if label \<in> set [u ''POSTING_CARD_FEATURES''] then
        estate_loop ds
          (foldl (\<lambda>e (k, v). AList.update k (PStr v) e) estate (parse_features text))
      else
        estate_loop ds (AList.update label (PStr text) estate))"

definition parse_estate :: "post \<Rightarrow> exn + card" where
  "parse_estate estate_post =
     (case posting_attr estate_post of
        [] \<Rightarrow> Inl IndexError
      | url # _ \<Rightarrow> Inr (estate_loop (data_qa estate_post) [(u ''url'', url)]))"

definition page_url :: "ustr \<Rightarrow> nat \<Rightarrow> ustr" where
  "page_url base_url page_number =
     (if page_number = 1 then base_url @ u ''.html''
      else base_url @ u ''-pagina-'' @ str_nat page_number @ u ''.html'')"

fun parse_estates :: "post list \<Rightarrow> exn + card list" where
  "parse_estates [] = Inr []"
| "parse_estates (estate_post # ps) =
     (case parse_estate estate_post of
        Inl e \<Rightarrow> Inl e
      | Inr estate \<Rightarrow>
          (case parse_estates ps of Inl e \<Rightarrow> Inl e | Inr estates \<Rightarrow> Inr (estate # estates)))"

definition scrap_page :: "browser \<Rightarrow> ustr \<Rightarrow> nat \<Rightarrow> exn + card list" where
  "scrap_page br base_url page_number =
     (case br (page_url base_url page_number) of
        Inl e \<Rightarrow> Inl e
      | Inr page \<Rightarrow> parse_estates (posts page))"

definition get_estates_quantity :: "browser \<Rightarrow> ustr \<Rightarrow> exn + int" where
  "get_estates_quantity br base_url =
     (case br (base_url @ u ''.html'') of
        Inl e \<Rightarrow> Inl e
      | Inr page \<Rightarrow>
          (case h1s page of
             [] \<Rightarrow> Inl IndexError
           | (text, _) # _ \<Rightarrow>
               (case findall False amount_rx text of
                  [] \<Rightarrow> Inl IndexError
                | m # _ \<Rightarrow> Inr (int (digits_val (remove_char 46 (grp m 0)))))))"

text \<open>
  The \<open>while\<close> loop of \<open>scrap_website\<close>. The loop may run forever, so it is a partial
  function: \<open>None\<close> is the run that never returns. Besides the result (the cards, or the
  exception that ended the run) the model returns the page numbers the loop has fetched,
  in order. \<open>time.sleep\<close> is left out.
\<close>

partial_function (option) scrap_loop ::
  "browser \<Rightarrow> ustr \<Rightarrow> int \<Rightarrow> nat \<Rightarrow> card list \<Rightarrow> nat \<Rightarrow> nat list
     \<Rightarrow> (nat list \<times> (exn + card list)) option" where
  "scrap_loop br base_url estates_quantity page_number estates estates_scraped fetched =
     (if estates_quantity > int estates_scraped then
        (case scrap_page br base_url page_number of
           Inl e \<Rightarrow> Some (fetched @ [page_number], Inl e)
         | Inr page_estates \<Rightarrow>
             scrap_loop br base_url estates_quantity (page_number + 1)
               (estates @ page_estates) (length (estates @ page_estates))
               (fetched @ [page_number]))
      else Some (fetched, Inr estates))"

definition scrap_website :: "browser \<Rightarrow> ustr \<Rightarrow> (nat list \<times> (exn + card list)) option" where
  "scrap_website br base_url =
     (case get_estates_quantity br base_url of
        Inl e \<Rightarrow> Some ([], Inl e)
      | Inr estates_quantity \<Rightarrow> scrap_loop br base_url estates_quantity 1 [] 0 [])"

section \<open>zonaprop_excel_export.py\<close>

text \<open>
  A Python \<open>float\<close> is modelled as the rational number it stands for: rounding to the
  nearest double, and the overflow and underflow of \<open>float\<close> on a string, are not modelled. \<open>float_decimal\<close> is \<open>float(s)\<close>
  on the strings \<open>_clean_number\<close> can pass to it, which are ASCII digits and dots: a
  string with two dots raises ValueError (\<open>None\<close>).
\<close>

definition float_decimal :: "ustr \<Rightarrow> rat option" where
  "float_decimal s =
     (let ip = takeWhile (\<lambda>c. c \<noteq> 46) s; rest = dropWhile (\<lambda>c. c \<noteq> 46) s in
      if rest = [] then Some (of_nat (digits_val ip))
      else let fp = tl rest in
        if 46 \<in> set fp then None
        else Some (of_nat (digits_val ip) + of_nat (digits_val fp) / 10 ^ length fp))"

text \<open>\<open>_clean_number\<close> after \<open>str(raw)\<close>, and on the values of a card.\<close>

definition clean_number_str :: "ustr \<Rightarrow> rat option" where
  "clean_number_str raw =
     (let s = strip raw in
      if s = [] then None
      else case search False (Grp 0 number_rx) s of
             None \<Rightarrow> None
           | Some (rest, m) \<Rightarrow> float_decimal (replace_char 44 46 (remove_char 46 (grp m 0))))"

fun py_str :: "pyval \<Rightarrow> ustr" where
  "py_str PNone = u ''None''"
| "py_str (PInt i) = str_int i"
| "py_str (PStr s) = s"

fun clean_number :: "pyval \<Rightarrow> rat option" where
  "clean_number PNone = None"
| "clean_number v = clean_number_str (py_str v)"

text \<open>
  \<open>str()\<close> and truthiness of a JSON value. The rendering of a list or a dictionary is
  left to the parameter \<open>container_str\<close>.
\<close>

fun json_str :: "(json \<Rightarrow> ustr) \<Rightarrow> json \<Rightarrow> ustr" where
  "json_str container_str JNull = u ''None''"
| "json_str container_str (JBool b) = (if b then u ''True'' else u ''False'')"
| "json_str container_str (JInt i) = str_int i"
| "json_str container_str (JFloat r) = r"
| "json_str container_str (JStr s) = s"
| "json_str container_str (JList xs) = container_str (JList xs)"
| "json_str container_str (JDict kvs) = container_str (JDict kvs)"

fun json_truthy :: "json \<Rightarrow> bool" where
  "json_truthy JNull = False"
| "json_truthy (JBool b) = b"
| "json_truthy (JInt i) = (i \<noteq> 0)"
| "json_truthy (JFloat r) = (r \<noteq> u ''0.0'' \<and> r \<noteq> u ''-0.0'')"
| "json_truthy (JStr s) = (s \<noteq> [])"
| "json_truthy (JList xs) = (xs \<noteq> [])"
| "json_truthy (JDict kvs) = (kvs \<noteq> [])"

definition json_or :: "json \<Rightarrow> json \<Rightarrow> json" where
  "json_or a b = (if json_truthy a then a else b)"

definition json_get :: "(ustr \<times> json) list \<Rightarrow> ustr \<Rightarrow> json" where
  "json_get d k = (case map_of d k of None \<Rightarrow> JNull | Some v \<Rightarrow> v)"

definition clean_number_json :: "(json \<Rightarrow> ustr) \<Rightarrow> json \<Rightarrow> rat option" where
  "clean_number_json container_str raw =
     (if raw = JNull then None else clean_number_str (json_str container_str raw))"

text \<open>The dictionary \<open>out\<close> of the three extractors, and \<open>a or b\<close> on its values.\<close>

record areas =
  m2_total :: "rat option"
  m2_covered :: "rat option"
  m2_land :: "rat option"

datatype target = Total | Covered | Land

fun out_get :: "areas \<Rightarrow> target \<Rightarrow> rat option" where
  "out_get out Total = m2_total out"
| "out_get out Covered = m2_covered out"
| "out_get out Land = m2_land out"

fun out_set :: "areas \<Rightarrow> target \<Rightarrow> rat option \<Rightarrow> areas" where
  "out_set out Total v = out\<lparr>m2_total := v\<rparr>"
| "out_set out Covered v = out\<lparr>m2_covered := v\<rparr>"
| "out_set out Land v = out\<lparr>m2_land := v\<rparr>"

definition out0 :: areas where
  "out0 = \<lparr>m2_total = None, m2_covered = None, m2_land = None\<rparr>"

definition all_filled :: "areas \<Rightarrow> bool" where
  "all_filled out \<longleftrightarrow> m2_total out \<noteq> None \<and> m2_covered out \<noteq> None \<and> m2_land out \<noteq> None"

definition num_or :: "rat option \<Rightarrow> rat option \<Rightarrow> rat option" where
  "num_or a b = (case a of None \<Rightarrow> b | Some x \<Rightarrow> if x \<noteq> 0 then a else b)"

definition extract_jsonld :: "soup \<Rightarrow> json list" where
  "extract_jsonld page = List.map_filter (\<lambda>x. x) (ld_scripts page)"

text \<open>\<open>_walk_json\<close>: the dictionaries of a document, in the order the generator yields them.\<close>

fun walk_json :: "json \<Rightarrow> (ustr \<times> json) list list" where
  "walk_json (JDict kvs) = kvs # concat (map (\<lambda>kv. walk_json (snd kv)) kvs)"
| "walk_json (JList xs) = concat (map walk_json xs)"
| "walk_json j = []"

text \<open>\<open>_parse_detail_areas_from_jsonld\<close>: the inner loop over the three known keys.\<close>

definition json_keys :: "(ustr \<times> target) list" where
  "json_keys = [(u ''floorSize'', Covered), (u ''lotSize'', Land), (u ''area'', Total)]"

fun jsonld_keys_loop ::
  "(json \<Rightarrow> ustr) \<Rightarrow> (ustr \<times> json) list \<Rightarrow> (ustr \<times> target) list \<Rightarrow> areas \<Rightarrow> areas" where
  "jsonld_keys_loop cs d [] out = out"
| "jsonld_keys_loop cs d ((key, tgt) # ks) out =
     (if map_of d key = None \<or> out_get out tgt \<noteq> None then jsonld_keys_loop cs d ks out
      else
        (case json_get d key of
           JDict v \<Rightarrow>
             jsonld_keys_loop cs d ks
               (out_set out tgt
                  (clean_number_json cs (json_or (json_get v (u ''value'')) (json_get v (u ''@value'')))))
         | JBool b \<Rightarrow> jsonld_keys_loop cs d ks (out_set out tgt (clean_number_json cs (JBool b)))
         | JInt i \<Rightarrow> jsonld_keys_loop cs d ks (out_set out tgt (clean_number_json cs (JInt i)))
         | JFloat r \<Rightarrow> jsonld_keys_loop cs d ks (out_set out tgt (clean_number_json cs (JFloat r)))
         | JStr t \<Rightarrow> jsonld_keys_loop cs d ks (out_set out tgt (clean_number_json cs (JStr t)))
         | _ \<Rightarrow> jsonld_keys_loop cs d ks out))"

text \<open>The loop over the items of \<open>additionalProperty\<close>.\<close>

fun jsonld_ap_loop :: "(json \<Rightarrow> ustr) \<Rightarrow> json list \<Rightarrow> areas \<Rightarrow> areas" where
  "jsonld_ap_loop cs [] out = out"
| "jsonld_ap_loop cs (JDict item # items) out =
     (let name = lower (strip (json_str cs (json_or (json_get item (u ''name'')) (JStr []))));
          val = json_get item (u ''value'');
          out1 = (if m2_total out = None \<and> contains name (u ''superficie'') \<and> contains name (u ''total'')
                  then out\<lparr>m2_total := clean_number_json cs val\<rparr> else out);
          out2 = (if m2_covered out1 = None \<and> (contains name (u ''cubierta'') \<or> contains name (u ''cubiertos''))
                  then out1\<lparr>m2_covered := clean_number_json cs val\<rparr> else out1);
          out3 = (if m2_land out2 = None \<and> (contains name (u ''terreno'') \<or> contains name (u ''lote''))
                  then out2\<lparr>m2_land := clean_number_json cs val\<rparr> else out2)
      in jsonld_ap_loop cs items out3)"
| "jsonld_ap_loop cs (item # items) out = jsonld_ap_loop cs items out"

fun jsonld_loop :: "(json \<Rightarrow> ustr) \<Rightarrow> (ustr \<times> json) list list \<Rightarrow> areas \<Rightarrow> areas" where
  "jsonld_loop cs [] out = out"
| "jsonld_loop cs (d # ds) out =
     (let out1 = jsonld_keys_loop cs d json_keys out in
      case json_get d (u ''additionalProperty'') of
        JList ap \<Rightarrow> jsonld_loop cs ds (jsonld_ap_loop cs ap out1)
      | _ \<Rightarrow> jsonld_loop cs ds out1)"

definition parse_detail_areas_from_jsonld :: "(json \<Rightarrow> ustr) \<Rightarrow> json list \<Rightarrow> areas" where
  "parse_detail_areas_from_jsonld cs blks = jsonld_loop cs (walk_json (JList blks)) out0"

text \<open>
  \<open>_parse_detail_areas_from_html\<close>. The pattern is \<open>(\d+(?:[\.,]\d+)*)\s*(m^2|m2)\<close> with
  IGNORECASE.
\<close>

definition label_map :: "(ustr \<times> target) list" where
  "label_map =
     [(u ''superficie total'', Total), (u ''superficie cubierta'', Covered),
      (u ''superficie del terreno'', Land), (u ''superficie terreno'', Land),
      (u ''terreno'', Land), (u ''lote'', Land)]"

definition area_rx :: rx where
  "area_rx = Seq (Grp 1 number_rx) (Seq (Star Space) (Grp 2 (Alt (Lits m2) (Lits (u ''m2'')))))"

fun html_labels_loop :: "ustr \<Rightarrow> ustr \<Rightarrow> (ustr \<times> target) list \<Rightarrow> areas \<Rightarrow> areas" where
  "html_labels_loop txt low [] out = out"
| "html_labels_loop txt low ((lbl, key) # ls) out =
     (if out_get out key \<noteq> None then html_labels_loop txt low ls out
      else if contains low lbl then
        (case search True area_rx txt of
           None \<Rightarrow> html_labels_loop txt low ls out
         | Some (rest, m) \<Rightarrow>
             html_labels_loop txt low ls (out_set out key (clean_number_str (grp m 1))))
      else html_labels_loop txt low ls out)"

fun html_loop :: "ustr list \<Rightarrow> areas \<Rightarrow> areas" where
  "html_loop [] out = out"
| "html_loop (txt # els) out =
     (if txt = [] then html_loop els out
      else
        let out1 = html_labels_loop txt (lower txt) label_map out in
        if all_filled out1 then out1 else html_loop els out1)"

definition parse_detail_areas_from_html :: "soup \<Rightarrow> areas" where
  "parse_detail_areas_from_html page = html_loop (take 2000 (blocks page)) out0"

text \<open>\<open>_parse_detail_areas_from_icon_features\<close>\<close>

fun icon_loop :: "(ustr list option \<times> ustr) list \<Rightarrow> areas \<Rightarrow> areas" where
  "icon_loop [] out = out"
| "icon_loop ((None, txt) # lis) out = icon_loop lis out"
| "icon_loop ((Some classes, txt) # lis) out =
     (case clean_number_str txt of
        None \<Rightarrow> icon_loop lis out
      | Some val \<Rightarrow>
          let out1 =
            (if u ''icon-scubierta'' \<in> set classes then
               out\<lparr>m2_covered := num_or (m2_covered out) (Some val)\<rparr>
             else if u ''icon-stotal'' \<in> set classes then
               out\<lparr>m2_total := num_or (m2_total out) (Some val)\<rparr>
             else if u ''icon-sterreno'' \<in> set classes then
               out\<lparr>m2_land := num_or (m2_land out) (Some val)\<rparr>
             else out)
          in if all_filled out1 then out1 else icon_loop lis out1)"

definition parse_detail_areas_from_icon_features :: "soup \<Rightarrow> areas" where
  "parse_detail_areas_from_icon_features page = icon_loop (icon_features page) out0"

text \<open>The merge of \<open>parse_listing_detail\<close>: \<open>icons or labels or jsonld\<close>, field by field.\<close>

definition merge_areas :: "areas \<Rightarrow> areas \<Rightarrow> areas \<Rightarrow> areas" where
  "merge_areas areas_icons areas_labels areas_jsonld =
     \<lparr>m2_total = num_or (num_or (m2_total areas_icons) (m2_total areas_labels)) (m2_total areas_jsonld),
      m2_covered = num_or (num_or (m2_covered areas_icons) (m2_covered areas_labels)) (m2_covered areas_jsonld),
      m2_land = num_or (num_or (m2_land areas_icons) (m2_land areas_labels)) (m2_land areas_jsonld)\<rparr>"

definition resolve_areas :: "(json \<Rightarrow> ustr) \<Rightarrow> soup \<Rightarrow> areas" where
  "resolve_areas cs page =
     (let blks = extract_jsonld page;
          areas_jsonld = parse_detail_areas_from_jsonld cs blks;
          areas_icons = parse_detail_areas_from_icon_features page;
          areas_labels = parse_detail_areas_from_html page
      in merge_areas areas_icons areas_labels areas_jsonld)"

text \<open>
  The collaborators of the export: the browser; \<open>url_norm\<close>, what \<open>_normalize_url\<close> does
  to a string (\<open>html.unescape\<close> and \<open>urllib.parse\<close>, which can raise ValueError);
  \<open>float_of_str\<close>, Python's \<open>float()\<close> on an arbitrary string (\<open>None\<close> for ValueError);
  and \<open>container_str\<close>.
\<close>

record env =
  get_page :: browser
  url_norm :: "ustr \<Rightarrow> exn + ustr"
  float_of_str :: "ustr \<Rightarrow> rat option"
  container_str :: "json \<Rightarrow> ustr"

text \<open>\<open>_normalize_url\<close>: \<open>unescape\<close> raises TypeError on a value that is not a string.\<close>

fun normalize_url :: "env \<Rightarrow> pyval \<Rightarrow> exn + ustr" where
  "normalize_url ev (PStr url) = url_norm ev url"
| "normalize_url ev v = Inl TypeError"

record detail =
  d_link :: ustr
  d_title :: "ustr option"
  d_m2_total :: "rat option"
  d_m2_covered :: "rat option"
  d_m2_land :: "rat option"
  d_detail_error :: "ustr option"

definition parse_listing_detail :: "env \<Rightarrow> ustr \<Rightarrow> exn + detail" where
  "parse_listing_detail ev url =
     (case normalize_url ev (PStr url) of
        Inl e \<Rightarrow> Inl e
      | Inr url' \<Rightarrow>
          (case get_page ev url' of
             Inl e \<Rightarrow> Inl e
           | Inr page \<Rightarrow>
               let title = (case h1s page of [] \<Rightarrow> None | (_, t) # _ \<Rightarrow> Some t);
                   ar = resolve_areas (container_str ev) page
               in Inr \<lparr>d_link = url', d_title = title, d_m2_total = m2_total ar,
                        d_m2_covered = m2_covered ar, d_m2_land = m2_land ar,
                        d_detail_error = None\<rparr>))"

record export_row =
  r_link :: ustr
  r_title :: "ustr option"
  r_location :: pyval
  r_price_value :: pyval
  r_price_type :: pyval
  r_expenses_value :: pyval
  r_expenses_type :: pyval
  r_m2_total :: "rat option"
  r_m2_covered :: "rat option"
  r_m2_land :: "rat option"
  r_precio_por_m2 :: "rat option"
  r_rooms :: "rat option"
  r_bedrooms :: "rat option"
  r_bathrooms :: "rat option"
  r_parking :: "rat option"
  r_description :: pyval
  r_detail_error :: "ustr option"

text \<open>The first loop of \<open>export_search_to_excel\<close>: every card with a \<open>url\<close> key gets a \<open>link\<close>.\<close>

fun link_cards :: "env \<Rightarrow> card list \<Rightarrow> exn + card list" where
  "link_cards ev [] = Inr []"
| "link_cards ev (c # cs) =
     (case (if map_of c (u ''url'') \<noteq> None then
              (case normalize_url ev (dict_get c (u ''url'')) of
                 Inl e \<Rightarrow> Inl e
               | Inr l \<Rightarrow> Inr (AList.update (u ''link'') (PStr l) c))
            else Inr c) of
        Inl e \<Rightarrow> Inl e
      | Inr c' \<Rightarrow> (case link_cards ev cs of Inl e \<Rightarrow> Inl e | Inr cs' \<Rightarrow> Inr (c' # cs')))"

text \<open>\<open>cards[:max_listings]\<close>\<close>

definition limit_cards :: "int option \<Rightarrow> card list \<Rightarrow> card list" where
  "limit_cards max_listings cards =
     (case max_listings of
        None \<Rightarrow> cards
      | Some n \<Rightarrow> if n < 0 then take (nat (int (length cards) + n)) cards else take (nat n) cards)"

text \<open>
  \<open>float(price_value) if price_value is not None else None\<close>. On a string, ValueError is
  caught and gives \<open>None\<close>. On an integer, \<open>float\<close> raises OverflowError when the integer
  rounds beyond the largest double, that is from \<open>2^1024 - 2^970\<close> on in absolute value;
  the \<open>except (TypeError, ValueError)\<close> of the source does not catch it.
\<close>

definition OverflowError :: exn where
  "OverflowError = PyExc (u ''OverflowError'') (u ''int too large to convert to float'')"

definition float_int_bound :: int where
  "float_int_bound = 2 ^ 1024 - 2 ^ 970"

definition price_num :: "env \<Rightarrow> pyval \<Rightarrow> exn + rat option" where
  "price_num ev price_value =
     (case price_value of
        PNone \<Rightarrow> Inr None
      | PInt i \<Rightarrow> if float_int_bound \<le> \<bar>i\<bar> then Inl OverflowError else Inr (Some (of_int i))
      | PStr t \<Rightarrow> Inr (float_of_str ev t))"

definition precio :: "rat option \<Rightarrow> rat option \<Rightarrow> rat option" where
  "precio price_value_num denom =
     (case (price_value_num, denom) of
        (Some p, Some d) \<Rightarrow> if d > 0 then Some (p / d) else None
      | _ \<Rightarrow> None)"

text \<open>
  The body of the loop over the cards: \<open>Inr None\<close> is \<open>continue\<close>, \<open>Inr (Some row)\<close> the row
  appended, \<open>Inl e\<close> an exception that leaves the loop: one raised by \<open>_normalize_url\<close> in
  the handler of the detail failure, or the OverflowError of the price conversion, which
  stands after the \<open>try\<close> of the detail page.
\<close>

definition export_card :: "env \<Rightarrow> card \<Rightarrow> exn + export_row option" where
  "export_card ev crd =
     (let link = py_or (dict_get crd (u ''link'')) (dict_get crd (u ''url'')) in
      if \<not> truthy link then Inr None
      else
        (case (case parse_listing_detail ev (py_str link) of
                 Inr d \<Rightarrow> Inr d
               | Inl (PyExc name msg) \<Rightarrow>
                   (case normalize_url ev (PStr (py_str link)) of
                      Inl e' \<Rightarrow> Inl e'
                    | Inr l \<Rightarrow>
                        Inr \<lparr>d_link = l, d_title = None, d_m2_total = None, d_m2_covered = None,
                             d_m2_land = None, d_detail_error = Some (name @ u '': '' @ msg)\<rparr>)) of
           Inl e \<Rightarrow> Inl e
         | Inr d \<Rightarrow>
             let m2_total = num_or (d_m2_total d) (clean_number (dict_get crd (u ''square_meters_total_0'')));
                 m2_covered = d_m2_covered d;
                 price_value = dict_get crd (u ''price_value'')
             in
               (case price_num ev price_value of
                  Inl e \<Rightarrow> Inl e
                | Inr price_value_num \<Rightarrow>
                    let denom = num_or m2_covered m2_total
                    in Inr (Some
                         \<lparr>r_link = d_link d, r_title = d_title d,
                          r_location = dict_get crd (u ''location''),
                          r_price_value = price_value,
                          r_price_type = dict_get crd (u ''price_type''),
                          r_expenses_value = dict_get crd (u ''expenses_value''),
                          r_expenses_type = dict_get crd (u ''expenses_type''),
                          r_m2_total = m2_total, r_m2_covered = m2_covered,
                          r_m2_land = d_m2_land d,
                          r_precio_por_m2 = precio price_value_num denom,
                          r_rooms = clean_number (dict_get crd (u ''rooms_0'')),
                          r_bedrooms = clean_number (dict_get crd (u ''bedrooms_0'')),
                          r_bathrooms = clean_number (dict_get crd (u ''bathrooms_0'')),
                          r_parking = clean_number (dict_get crd (u ''parking_0'')),
                          r_description = dict_get crd (u ''description''),
                          r_detail_error = d_detail_error d\<rparr>))))"

fun export_loop :: "env \<Rightarrow> card list \<Rightarrow> exn + export_row list" where
  "export_loop ev [] = Inr []"
| "export_loop ev (crd # cards) =
     (case export_card ev crd of
        Inl e \<Rightarrow> Inl e
      | Inr r \<Rightarrow>
          (case export_loop ev cards of
             Inl e \<Rightarrow> Inl e
           | Inr rows \<Rightarrow> Inr (case r of None \<Rightarrow> rows | Some row \<Rightarrow> row # rows)))"

definition export_cards :: "env \<Rightarrow> int option \<Rightarrow> card list \<Rightarrow> exn + export_row list" where
  "export_cards ev max_listings cards =
     (case link_cards ev cards of
        Inl e \<Rightarrow> Inl e
      | Inr cards' \<Rightarrow> export_loop ev (limit_cards max_listings cards'))"

text \<open>
  \<open>export_search_to_excel\<close> up to the rows it hands to the spreadsheet writer; \<open>base_url\<close>
  is what \<open>utils.parse_zonaprop_url\<close> made of the search URL. \<open>None\<close> is the run that
  never returns.
\<close>

definition export_search :: "env \<Rightarrow> ustr \<Rightarrow> int option \<Rightarrow> (exn + export_row list) option" where
  "export_search ev base_url max_listings =
     (case scrap_website (get_page ev) base_url of
        None \<Rightarrow> None
      | Some (fetched, Inl e) \<Rightarrow> Some (Inl e)
      | Some (fetched, Inr cards) \<Rightarrow> Some (export_cards ev max_listings cards))"

section \<open>Example inputs\<close>

definition post0 :: post where
  "post0 = \<lparr>posting_attr = [PStr (u ''/propiedades/a-1.html'')], data_qa = []\<rparr>"

definition card0 :: card where
  "card0 = [(u ''url'', PStr (u ''/propiedades/a-1.html''))]"

definition listing_page :: "ustr \<Rightarrow> nat \<Rightarrow> soup" where
  "listing_page h n = \<lparr>h1s = [(h, h)], posts = replicate n post0, ld_scripts = [],
     icon_features = [], blocks = []\<rparr>"

definition br_twenty :: browser where
  "br_twenty url = Inr (listing_page (u ''45 Casas en venta'') 20)"

definition br_gap :: browser where
  "br_gap url =
     (if url = u ''casas-pagina-2.html'' then Inr (listing_page (u ''10 Casas en venta'') 10)
      else Inr (listing_page (u ''10 Casas en venta'') 0))"

definition br_empty :: browser where
  "br_empty url = Inr (listing_page (u ''10 Casas en venta'') 0)"

text \<open>The property of an area value that the extractors keep: null, or not negative.\<close>

definition area_ok :: "rat option \<Rightarrow> bool" where
  "area_ok v = (case v of None \<Rightarrow> True | Some x \<Rightarrow> 0 \<le> x)"

definition areas_ok :: "areas \<Rightarrow> bool" where
  "areas_ok a \<longleftrightarrow> area_ok (m2_total a) \<and> area_ok (m2_covered a) \<and> area_ok (m2_land a)"

text \<open>
  Detail pages: one whose icon list reports a total of \<open>0 m^2\<close> next to a labelled
  total of 200, and one whose icon list reports 100 covered next to a labelled 200.
\<close>

definition no_container_str :: "json \<Rightarrow> ustr" where
  "no_container_str j = []"

definition page_zero_icon :: soup where
  "page_zero_icon =
     \<lparr>h1s = [], posts = [], ld_scripts = [],
      icon_features = [(Some [u ''icon-stotal''], u ''0 m'' @ [178] @ u '' tot.'')],
      blocks = [u ''Superficie total 200 m'' @ [178]]\<rparr>"

definition page_icon_label :: soup where
  "page_icon_label =
     \<lparr>h1s = [], posts = [], ld_scripts = [],
      icon_features = [(Some [u ''icon-scubierta''], u ''100 m'' @ [178] @ u '' cub.'')],
      blocks = [u ''Superficie cubierta 200 m'' @ [178]]\<rparr>"

definition page_zero_only :: soup where
  "page_zero_only =
     \<lparr>h1s = [], posts = [], ld_scripts = [],
      icon_features = [(Some [u ''icon-stotal''], u ''0 m'' @ [178])],
      blocks = []\<rparr>"

definition page_zero_jsonld :: soup where
  "page_zero_jsonld =
     \<lparr>h1s = [], posts = [],
      ld_scripts = [Some (JDict [(u ''floorSize'', JStr (u ''0'')), (u ''area'', JStr (u ''80''))])],
      icon_features = [], blocks = []\<rparr>"


text \<open>
  Runs of the export. \<open>ev_page pg\<close> serves the page \<open>pg\<close> for every URL and \<open>ev_down\<close>
  raises on every fetch; neither changes a URL. The cards carry a price of 100000, a
  total area of 771, and a price of 401 digits.
\<close>

definition ev_page :: "soup \<Rightarrow> env" where
  "ev_page pg =
     \<lparr>get_page = (\<lambda>url. Inr pg), url_norm = (\<lambda>url. Inr url), float_of_str = (\<lambda>t. None),
      container_str = no_container_str\<rparr>"

definition ev_down :: env where
  "ev_down =
     \<lparr>get_page = (\<lambda>url. Inl (PyExc (u ''ConnectionError'') (u ''timed out''))),
      url_norm = (\<lambda>url. Inr url), float_of_str = (\<lambda>t. None),
      container_str = no_container_str\<rparr>"

definition card_priced :: card where
  "card_priced =
     [(u ''url'', PStr (u ''/propiedades/a-1.html'')), (u ''price_value'', PInt 100000),
      (u ''price_type'', PStr (u ''USD''))]"


definition huge_price :: int where
  "huge_price = 10 ^ 400"

definition card_huge :: card where
  "card_huge =
     [(u ''url'', PStr (u ''/propiedades/a-1.html'')), (u ''price_value'', PInt huge_price)]"

definition page_fifty :: soup where
  "page_fifty =
     \<lparr>h1s = [], posts = [], ld_scripts = [],
      icon_features = [(Some [u ''icon-scubierta''], u ''50 m'' @ [178] @ u '' cub.'')],
      blocks = []\<rparr>"

definition page_zero_covered :: soup where
  "page_zero_covered =
     \<lparr>h1s = [], posts = [],
      ld_scripts = [Some (JDict [(u ''floorSize'', JStr (u ''0''))])],
      icon_features = [], blocks = []\<rparr>"

text \<open>What a row says of the price per square metre, and of the areas.\<close>

definition precio_view :: "exn + export_row option \<Rightarrow> (pyval \<times> rat option \<times> rat option \<times> rat option) option" where
  "precio_view r =
     (case r of
        Inr (Some row) \<Rightarrow>
          Some (r_price_value row, r_m2_covered row, r_m2_total row, r_precio_por_m2 row)
      | _ \<Rightarrow> None)"


text \<open>
  Listing pages whose first card has no \<open>data-to-posting\<close> attribute, as either release
  of the HTML library reports it.
\<close>

definition page_nourl :: "pyval list \<Rightarrow> soup" where
  "page_nourl attr =
     \<lparr>h1s = [(u ''10 Casas en venta'', u ''10 Casas en venta'')],
      posts = \<lparr>posting_attr = attr, data_qa = []\<rparr> # replicate 9 post0,
      ld_scripts = [], icon_features = [], blocks = []\<rparr>"

definition row_fifty :: export_row where
  "row_fifty =
     \<lparr>r_link = u ''/propiedades/a-1.html'', r_title = None, r_location = PNone,
      r_price_value = PInt 100000, r_price_type = PStr (u ''USD''), r_expenses_value = PNone,
      r_expenses_type = PNone, r_m2_total = None, r_m2_covered = Some 50, r_m2_land = None,
      r_precio_por_m2 = Some 2000, r_rooms = None, r_bedrooms = None, r_bathrooms = None,
      r_parking = None, r_description = PNone, r_detail_error = None\<rparr>"

text \<open>
  Feature strings: the one of the test suite, \<open>771 m^2 tot. | 8 amb. | 4 dorm. | 3 ba~nos | 1 coch.\<close>,
  and one whose unit is written with a long s (code point 383) in place of the final s.
\<close>

definition features_example :: ustr where
  "features_example =
     u ''771 m'' @ [178] @ u '' tot. | 8 amb. | 4 dorm. | 3 ba'' @ [241] @ u ''os | 1 coch.''"

definition features_long_s :: ustr where
  "features_long_s = u ''3 ba'' @ [241] @ u ''o'' @ [383] @ u '' | 2 ba'' @ [241] @ u ''o'' @ [383]"

text \<open>The groups a pattern can set, and the base keys of the matches of a feature string.\<close>

fun groups :: "rx \<Rightarrow> nat set" where
  "groups (Seq a b) = groups a \<union> groups b"
| "groups (Alt a b) = groups a \<union> groups b"
| "groups (Star a) = groups a"
| "groups (Grp n a) = insert n (groups a)"
| "groups r = {}"

definition base_keys :: "ustr \<Rightarrow> ustr list" where
  "base_keys text = map (\<lambda>(raw_value, raw_unit, raw_qual). base_key_of raw_unit raw_qual) (feature_tokens text)"

text \<open>
  The spellings of a unit in the feature pattern, the characters they are made of, and a
  word that matches one of them under IGNORECASE.
\<close>

definition unit_literals :: "ustr list" where
  "unit_literals =
     [u ''m'' @ [178], u ''m2'', u ''amb'', u ''amb'' @ [46], u ''dorm'', u ''dorm'' @ [46],
      u ''ba'' @ [241] @ u ''o'', (u ''ba'' @ [241] @ u ''o'') @ [115],
      u ''coch'', u ''coch'' @ [46]]"

definition unit_word :: "ustr \<Rightarrow> bool" where
  "unit_word w \<longleftrightarrow> (\<exists>p\<in>set unit_literals. list_all2 (lit_match True) p w)"

definition unit_chars :: "nat set" where
  "unit_chars = {109, 178, 50, 97, 98, 46, 100, 111, 114, 241, 115, 99, 104}"

definition features_repeat :: ustr where
  "features_repeat = u ''2 amb. | 3 amb.''"

section \<open>Evaluating the matcher\<close>

declare rx_run.simps [simp del] findall.simps [simp del] str_nat.simps [simp del]

lemma bind_weak_cong: "xs = ys \<Longrightarrow> List.bind xs f = List.bind ys f"
  by simp

lemma rx_run_Seq_bind:
  "rx_run ci (Seq a b) s caps = List.bind (rx_run ci a s caps) (\<lambda>(s', caps'). rx_run ci b s' caps')"
  by (simp add: rx_run.simps List.bind_def)

lemma rx_run_Star_bind:
  "rx_run ci (Star a) s caps =
     List.bind (rx_run ci a s caps)
       (\<lambda>(s', caps'). if length s' < length s then rx_run ci (Star a) s' caps' else []) @ [(s, caps)]"
  by (simp add: rx_run.simps List.bind_def)

lemmas rx_eval = rx_run.simps(1-5,7,9) rx_run_Seq_bind rx_run_Star_bind
  findall.simps Opt_def Plus_def lit_match_def sre_lower_def ci_class_def
  is_digit_def is_space_def u_def

lemma parse_estates_replicate:
  "parse_estate p = Inr c \<Longrightarrow> parse_estates (replicate n p) = Inr (replicate n c)"
  by (induction n) simp_all

lemma parse_estate_post0: "parse_estate post0 = Inr card0"
  by (simp add: parse_estate_def post0_def card0_def)

lemma quantity_45: "get_estates_quantity br_twenty b = Inr 45"
  by (simp add: get_estates_quantity_def br_twenty_def listing_page_def amount_rx_def rx_eval
      grp_def remove_char_def digits_val_def cong: bind_weak_cong)

lemma str_nat_digit: "n < 10 \<Longrightarrow> str_nat n = [48 + n]"
  by (subst str_nat.simps) simp

section \<open>The pagination loop\<close>

lemma sum_shift_pages:
  "(\<Sum>j<Suc k. f (p + j)) = (f p :: nat) + (\<Sum>j<k. f (p + 1 + j))"
  by (simp add: sum.lessThan_Suc_shift del: sum.lessThan_Suc)

lemma scrap_loop_Some_reaches:
  assumes s: "scrap_loop br base q p estates n fetched = Some r"
  shows "(\<forall>m. scrap_page br base m = Inr (pages m)) \<longrightarrow> n = length estates \<longrightarrow>
     (\<exists>k. q \<le> int (length estates + (\<Sum>j<k. length (pages (p + j)))))"
proof (rule scrap_loop.raw_induct
    [where P = "\<lambda>br base q p estates n fetched r.
       (\<forall>m. scrap_page br base m = Inr (pages m)) \<longrightarrow> n = length estates \<longrightarrow>
       (\<exists>k. q \<le> int (length estates + (\<Sum>j<k. length (pages (p + j)))))", OF _ s])
  fix loop br base q p and estates :: "card list" and n fetched r
  assume IH: "\<And>br base q p estates n fetched y. loop br base q p estates n fetched = Some y \<Longrightarrow>
       (\<forall>m. scrap_page br base m = Inr (pages m)) \<longrightarrow> n = length estates \<longrightarrow>
       (\<exists>k. q \<le> int (length estates + (\<Sum>j<k. length (pages (p + j)))))"
    and body: "(if int n < q
      then case scrap_page br base p of
           Inl e \<Rightarrow> Some (fetched @ [p], Inl e)
           | Inr page_estates \<Rightarrow>
               loop br base q (p + 1) (estates @ page_estates) (length (estates @ page_estates))
                (fetched @ [p])
      else Some (fetched, Inr estates)) = Some r"
  show "(\<forall>m. scrap_page br base m = Inr (pages m)) \<longrightarrow> n = length estates \<longrightarrow>
       (\<exists>k. q \<le> int (length estates + (\<Sum>j<k. length (pages (p + j)))))"
  proof (intro impI)
    assume pg: "\<forall>m. scrap_page br base m = Inr (pages m)" and n: "n = length estates"
    show "\<exists>k. q \<le> int (length estates + (\<Sum>j<k. length (pages (p + j))))"
    proof (cases "int n < q")
      case False
      then have "q \<le> int (length estates + (\<Sum>j<0. length (pages (p + j))))"
        using n by simp
      then show ?thesis by blast
    next
      case True
      with body pg have "loop br base q (p + 1) (estates @ pages p) (length (estates @ pages p)) (fetched @ [p]) = Some r"
        by simp
      from IH[OF this] pg obtain k where
        k: "q \<le> int (length (estates @ pages p) + (\<Sum>j<k. length (pages (p + 1 + j))))"
        by blast
      have eq: "(\<Sum>j<Suc k. length (pages (p + j))) = length (pages p) + (\<Sum>j<k. length (pages (p + 1 + j)))"
        by (rule sum_shift_pages[of "\<lambda>x. length (pages x)"])
      have "q \<le> int (length estates + (\<Sum>j<Suc k. length (pages (p + j))))"
        using k by (simp only: eq length_append add.assoc)
      then show ?thesis by blast
    qed
  qed
qed

lemma scrap_loop_reaches_Some:
  assumes pg: "\<forall>m. scrap_page br base m = Inr (pages m)"
  shows "q \<le> int (length estates + (\<Sum>j<k. length (pages (p + j)))) \<Longrightarrow>
         \<exists>r. scrap_loop br base q p estates (length estates) fetched = Some r"
proof (induction k arbitrary: p estates fetched)
  case 0
  then show ?case by (simp add: scrap_loop.simps)
next
  case (Suc k)
  show ?case
  proof (cases "int (length estates) < q")
    case False
    then show ?thesis by (simp add: scrap_loop.simps)
  next
    case True
    have eq: "(\<Sum>j<Suc k. length (pages (p + j))) = length (pages p) + (\<Sum>j<k. length (pages (p + 1 + j)))"
      by (rule sum_shift_pages[of "\<lambda>x. length (pages x)"])
    have "q \<le> int (length (estates @ pages p) + (\<Sum>j<k. length (pages (p + 1 + j))))"
      using Suc.prems by (simp only: eq length_append add.assoc)
    from Suc.IH[OF this] obtain r where
      "scrap_loop br base q (p + 1) (estates @ pages p) (length (estates @ pages p)) (fetched @ [p]) = Some r"
      by blast
    with True pg show ?thesis
      by (subst scrap_loop.simps) simp
  qed
qed

lemma quantity_10_gap: "get_estates_quantity br_gap b = Inr 10"
  by (simp add: get_estates_quantity_def br_gap_def listing_page_def amount_rx_def rx_eval
      grp_def remove_char_def digits_val_def cong: bind_weak_cong)

lemma quantity_10_empty: "get_estates_quantity br_empty b = Inr 10"
  by (simp add: get_estates_quantity_def br_empty_def listing_page_def amount_rx_def rx_eval
      grp_def remove_char_def digits_val_def cong: bind_weak_cong)

text \<open>
  C5. With a target of 45 and 20 cards on each of the pages 1, 2 and 3, the loop fetches
  the pages 1, 2, 3 and no other, and returns all 60 cards, untrimmed. Nothing is assumed
  of page 4: it is never requested.
\<close>

theorem pagination_45_by_20:
  assumes "get_estates_quantity br base = Inr 45"
    and "scrap_page br base 1 = Inr e1" and "length e1 = 20"
    and "scrap_page br base 2 = Inr e2" and "length e2 = 20"
    and "scrap_page br base 3 = Inr e3" and "length e3 = 20"
  shows "scrap_website br base = Some ([1, 2, 3], Inr (e1 @ e2 @ e3)) \<and>
         length (e1 @ e2 @ e3) = 60"
proof -
  have "scrap_loop br base 45 1 [] 0 [] = scrap_loop br base 45 2 e1 20 [1]"
    using assms(2,3) by (subst scrap_loop.simps) (simp add: numeral_2_eq_2)
  also have "\<dots> = scrap_loop br base 45 3 (e1 @ e2) 40 [1, 2]"
    using assms(3,4,5) by (subst scrap_loop.simps) simp
  also have "\<dots> = scrap_loop br base 45 4 (e1 @ e2 @ e3) 60 [1, 2, 3]"
    using assms(3,5,6,7) by (subst scrap_loop.simps) simp
  also have "\<dots> = Some ([1, 2, 3], Inr (e1 @ e2 @ e3))"
    by (subst scrap_loop.simps) simp
  finally show ?thesis
    using assms by (simp add: scrap_website_def)
qed

theorem pagination_45_by_20_witness:
  "get_estates_quantity br_twenty (u ''casas'') = Inr 45 \<and>
   scrap_page br_twenty (u ''casas'') 1 = Inr (replicate 20 card0) \<and>
   scrap_page br_twenty (u ''casas'') 2 = Inr (replicate 20 card0) \<and>
   scrap_page br_twenty (u ''casas'') 3 = Inr (replicate 20 card0) \<and>
   scrap_website br_twenty (u ''casas'') =
     Some ([1, 2, 3], Inr (replicate 20 card0 @ replicate 20 card0 @ replicate 20 card0)) \<and>
   length (replicate 20 card0 @ replicate 20 card0 @ replicate 20 card0) = 60"
proof -
  have pg: "scrap_page br_twenty (u ''casas'') n = Inr (replicate 20 card0)" for n
    by (simp add: scrap_page_def br_twenty_def listing_page_def
        parse_estates_replicate[OF parse_estate_post0])
  have len: "length (replicate 20 card0) = 20"
    by simp
  from pagination_45_by_20[OF quantity_45 pg len pg len pg len] quantity_45 pg
  show ?thesis by blast
qed

text \<open>
  C10, as stated, fails: a page without cards does not by itself keep the loop from
  returning. Here the target is 10, page 1 yields no card and page 2 yields 10.
\<close>

theorem empty_page_then_termination:
  "get_estates_quantity br_gap (u ''casas'') = Inr 10 \<and>
   scrap_page br_gap (u ''casas'') 1 = Inr [] \<and>
   scrap_website br_gap (u ''casas'') = Some ([1, 2], Inr (replicate 10 card0))"
proof -
  have p1: "scrap_page br_gap (u ''casas'') 1 = Inr []"
    by (simp add: scrap_page_def page_url_def br_gap_def listing_page_def u_def str_nat_digit)
  have p2: "scrap_page br_gap (u ''casas'') 2 = Inr (replicate 10 card0)"
    by (simp add: scrap_page_def page_url_def br_gap_def listing_page_def u_def str_nat_digit
        parse_estates_replicate[OF parse_estate_post0])
  have "scrap_loop br_gap (u ''casas'') 10 1 [] 0 [] = scrap_loop br_gap (u ''casas'') 10 2 [] 0 [1]"
    using p1 by (subst scrap_loop.simps) (simp add: numeral_2_eq_2)
  also have "\<dots> = scrap_loop br_gap (u ''casas'') 10 3 (replicate 10 card0) 10 [1, 2]"
    using p2 by (subst scrap_loop.simps) simp
  also have "\<dots> = Some ([1, 2], Inr (replicate 10 card0))"
    by (subst scrap_loop.simps) simp
  finally show ?thesis
    using p1 quantity_10_gap by (simp add: scrap_website_def)
qed

text \<open>
  C10, amended. When no fetch raises, \<open>scrap_website\<close> never returns exactly when no
  finite number of pages brings the accumulated number of cards up to the target: there
  is no other exit from the loop, neither on an empty page nor on a page limit.
\<close>

theorem scrap_website_diverges_iff:
  assumes "get_estates_quantity br base = Inr q"
    and "\<forall>m. scrap_page br base m = Inr (pages m)"
  shows "scrap_website br base = None \<longleftrightarrow> (\<forall>k. int (\<Sum>j<k. length (pages (1 + j))) < q)"
proof
  assume "scrap_website br base = None"
  then have none: "scrap_loop br base q 1 [] (length ([]::card list)) [] = None"
    using assms(1) by (simp add: scrap_website_def)
  show "\<forall>k. int (\<Sum>j<k. length (pages (1 + j))) < q"
  proof (rule ccontr)
    assume "\<not> (\<forall>k. int (\<Sum>j<k. length (pages (1 + j))) < q)"
    then obtain k where "q \<le> int (length ([]::card list) + (\<Sum>j<k. length (pages (1 + j))))"
      by (auto simp: not_less)
    from scrap_loop_reaches_Some[OF assms(2) this, of "[]"] none show False by simp
  qed
next
  assume all: "\<forall>k. int (\<Sum>j<k. length (pages (1 + j))) < q"
  show "scrap_website br base = None"
  proof (rule ccontr)
    assume "scrap_website br base \<noteq> None"
    then obtain r where "scrap_loop br base q 1 [] 0 [] = Some r"
      using assms(1) by (auto simp: scrap_website_def)
    from scrap_loop_Some_reaches[OF this, of pages] assms(2) obtain k where
      "q \<le> int (length ([]::card list) + (\<Sum>j<k. length (pages (1 + j))))" by auto
    with all show False by (simp add: not_le[symmetric])
  qed
qed

theorem scrap_website_diverges_iff_witness:
  "get_estates_quantity br_empty (u ''casas'') = Inr 10 \<and>
   scrap_page br_empty (u ''casas'') 1 = Inr [] \<and>
   scrap_website br_empty (u ''casas'') = None"
proof -
  have pg: "\<forall>m. scrap_page br_empty (u ''casas'') m = Inr ((\<lambda>m. []) m)"
    by (simp add: scrap_page_def br_empty_def listing_page_def)
  from scrap_website_diverges_iff[OF quantity_10_empty pg] quantity_10_empty pg
  show ?thesis by simp
qed

section \<open>Prices\<close>

lemma currency_example_try:
  "parse_currency_try (u ''U$S 150.000'') = Inr (150000, u ''$'')"
  by (simp add: parse_currency_try_def amount_rx_def currency_rx_def rx_eval Lits.simps
      grp_def remove_char_def digits_val_def cong: bind_weak_cong)

lemma currency_no_digits:
  "findall False amount_rx (u ''Consultar precio'') = []"
  by (simp add: amount_rx_def rx_eval cong: bind_weak_cong)

text \<open>
  C6. \<open>parse_currency_value\<close> returns on every text: the price \<open>U$S 150.000\<close> gives the
  integer 150000 with the first marker the alternation matches (the sigil); a text without
  a numeric token or without a currency marker gives the text itself with \<open>None\<close>; and
  there is no third outcome, since the bare \<open>except\<close> catches whatever the body raises.
\<close>

theorem parse_currency_value_degrades:
  "parse_currency_value (u ''U$S 150.000'') = (PInt 150000, PStr (u ''$'')) \<and>
   ((findall False amount_rx text = [] \<or> findall False currency_rx text = []) \<longrightarrow>
      parse_currency_value text = (PStr text, PNone)) \<and>
   (parse_currency_value text = (PStr text, PNone) \<or>
    (\<exists>v t. parse_currency_try text = Inr (v, t) \<and> parse_currency_value text = (PInt v, PStr t)))"
proof (intro conjI impI)
  show "parse_currency_value (u ''U$S 150.000'') = (PInt 150000, PStr (u ''$''))"
    by (simp add: parse_currency_value_def currency_example_try)
next
  assume "findall False amount_rx text = [] \<or> findall False currency_rx text = []"
  then have "\<exists>e. parse_currency_try text = Inl e"
    by (auto simp: parse_currency_try_def Let_def split: list.splits)
  then show "parse_currency_value text = (PStr text, PNone)"
    by (auto simp: parse_currency_value_def)
next
  show "parse_currency_value text = (PStr text, PNone) \<or>
    (\<exists>v t. parse_currency_try text = Inr (v, t) \<and> parse_currency_value text = (PInt v, PStr t))"
    by (cases "parse_currency_try text") (auto simp: parse_currency_value_def)
qed

theorem parse_currency_value_degrades_witness:
  "findall False amount_rx (u ''Consultar precio'') = [] \<and>
   parse_currency_value (u ''Consultar precio'') = (PStr (u ''Consultar precio''), PNone)"
  using parse_currency_value_degrades[of "u ''Consultar precio''"] currency_no_digits
  by simp

section \<open>Area extraction\<close>

lemma float_decimal_nonneg: "float_decimal s = Some x \<Longrightarrow> 0 \<le> x"
  by (auto simp: float_decimal_def Let_def split: if_splits)

lemma clean_number_str_nonneg: "clean_number_str s = Some x \<Longrightarrow> 0 \<le> x"
  by (auto simp: clean_number_str_def Let_def split: if_splits option.splits
      dest: float_decimal_nonneg)

lemma area_ok_clean_str: "area_ok (clean_number_str s)"
  by (cases "clean_number_str s") (auto simp: area_ok_def dest: clean_number_str_nonneg)

lemma area_ok_clean_json: "area_ok (clean_number_json cs j)"
  by (simp add: clean_number_json_def area_ok_clean_str) (simp add: area_ok_def)

lemma area_ok_clean: "area_ok (clean_number v)"
  by (cases v) (simp_all add: area_ok_clean_str, simp add: area_ok_def)

lemma area_ok_num_or: "area_ok a \<Longrightarrow> area_ok b \<Longrightarrow> area_ok (num_or a b)"
  by (auto simp: num_or_def split: option.splits)

lemma areas_ok_out0: "areas_ok out0"
  by (simp add: areas_ok_def out0_def area_ok_def)

lemma areas_ok_out_set: "areas_ok out \<Longrightarrow> area_ok v \<Longrightarrow> areas_ok (out_set out t v)"
  by (cases t) (simp_all add: areas_ok_def)

lemma area_ok_num_or_Some:
  "area_ok a \<Longrightarrow> clean_number_str tx = Some val \<Longrightarrow> area_ok (num_or a (Some val))"
  using area_ok_clean_str[of tx] by (auto intro: area_ok_num_or)

lemma areas_ok_icon_step:
  "areas_ok acc \<Longrightarrow> clean_number_str tx = Some val \<Longrightarrow>
   areas_ok
     (if u ''icon-scubierta'' \<in> set classes then
        acc\<lparr>m2_covered := num_or (m2_covered acc) (Some val)\<rparr>
      else if u ''icon-stotal'' \<in> set classes then
        acc\<lparr>m2_total := num_or (m2_total acc) (Some val)\<rparr>
      else if u ''icon-sterreno'' \<in> set classes then
        acc\<lparr>m2_land := num_or (m2_land acc) (Some val)\<rparr>
      else acc)"
  by (auto simp: areas_ok_def intro: area_ok_num_or_Some)

lemma areas_ok_icon_loop: "areas_ok acc \<Longrightarrow> areas_ok (icon_loop lis acc)"
proof (induction lis acc rule: icon_loop.induct)
  case (3 classes tx lis acc)
  show ?case
  proof (cases "clean_number_str tx")
    case None
    with 3 show ?thesis by simp
  next
    case (Some val)
    define out1 where "out1 =
       (if u ''icon-scubierta'' \<in> set classes then
          acc\<lparr>m2_covered := num_or (m2_covered acc) (Some val)\<rparr>
        else if u ''icon-stotal'' \<in> set classes then
          acc\<lparr>m2_total := num_or (m2_total acc) (Some val)\<rparr>
        else if u ''icon-sterreno'' \<in> set classes then
          acc\<lparr>m2_land := num_or (m2_land acc) (Some val)\<rparr>
        else acc)"
    have ok1: "areas_ok out1"
      unfolding out1_def using "3.prems" Some by (rule areas_ok_icon_step)
    have eq: "icon_loop ((Some classes, tx) # lis) acc =
        (if all_filled out1 then out1 else icon_loop lis out1)"
      using Some by (simp add: out1_def Let_def)
    show ?thesis
    proof (cases "all_filled out1")
      case True
      with eq ok1 show ?thesis by simp
    next
      case False
      from "3.IH"(2)[OF Some out1_def False ok1] eq False show ?thesis by simp
    qed
  qed
qed simp_all

lemma areas_ok_html_labels_loop:
  "areas_ok acc \<Longrightarrow> areas_ok (html_labels_loop tx low ls acc)"
proof (induction tx low ls acc rule: html_labels_loop.induct)
  case (2 tx low lbl key ls acc)
  then show ?case
    by (auto split: option.splits simp: areas_ok_out_set area_ok_clean_str)
qed simp_all

lemma areas_ok_html_loop: "areas_ok acc \<Longrightarrow> areas_ok (html_loop els acc)"
  by (induction els acc rule: html_loop.induct)
    (auto simp: Let_def areas_ok_html_labels_loop)

lemma areas_ok_jsonld_keys_loop:
  "areas_ok acc \<Longrightarrow> areas_ok (jsonld_keys_loop cs d ks acc)"
proof (induction cs d ks acc rule: jsonld_keys_loop.induct)
  case (2 cs d key tgt ks acc)
  then show ?case
    by (auto split: json.splits simp: areas_ok_out_set area_ok_clean_json)
qed simp_all

lemma areas_ok_jsonld_ap_loop:
  "areas_ok acc \<Longrightarrow> areas_ok (jsonld_ap_loop cs items acc)"
proof (induction cs items acc rule: jsonld_ap_loop.induct)
  case (2 cs item items acc)
  have "areas_ok (a\<lparr>m2_total := clean_number_json cs v\<rparr>)"
       "areas_ok (a\<lparr>m2_covered := clean_number_json cs v\<rparr>)"
       "areas_ok (a\<lparr>m2_land := clean_number_json cs v\<rparr>)" if "areas_ok a" for a v
    using that area_ok_clean_json[of cs v] by (simp_all add: areas_ok_def)
  with 2 show ?case
    by (simp add: Let_def)
qed simp_all

lemma areas_ok_jsonld_loop: "areas_ok acc \<Longrightarrow> areas_ok (jsonld_loop cs ds acc)"
  by (induction cs ds acc rule: jsonld_loop.induct)
    (auto simp: Let_def areas_ok_jsonld_keys_loop areas_ok_jsonld_ap_loop split: json.splits)

lemma areas_ok_merge:
  "areas_ok a \<Longrightarrow> areas_ok b \<Longrightarrow> areas_ok c \<Longrightarrow> areas_ok (merge_areas a b c)"
  by (simp add: areas_ok_def merge_areas_def area_ok_num_or)

lemmas area_eval = clean_number_str_def strip_def search.simps number_rx_def area_rx_def m2_def
  float_decimal_def replace_char_def remove_char_def digits_val_def grp_def rx_eval Lits.simps
  lower_def lower_cp_def label_map_def all_filled_def out0_def

lemma icons_zero_only:
  "parse_detail_areas_from_icon_features page_zero_only =
     \<lparr>m2_total = Some 0, m2_covered = None, m2_land = None\<rparr>"
  by (simp add: parse_detail_areas_from_icon_features_def page_zero_only_def num_or_def area_eval
      cong: bind_weak_cong)

lemma icons_zero_icon:
  "parse_detail_areas_from_icon_features page_zero_icon =
     \<lparr>m2_total = Some 0, m2_covered = None, m2_land = None\<rparr>"
  by (simp add: parse_detail_areas_from_icon_features_def page_zero_icon_def num_or_def area_eval
      cong: bind_weak_cong)

lemma labels_zero_icon:
  "parse_detail_areas_from_html page_zero_icon =
     \<lparr>m2_total = Some 200, m2_covered = None, m2_land = None\<rparr>"
  by (simp add: parse_detail_areas_from_html_def page_zero_icon_def area_eval
      cong: bind_weak_cong)

lemma jsonld_nothing:
  "parse_detail_areas_from_jsonld cs [] = out0"
  by (simp add: parse_detail_areas_from_jsonld_def)

lemma icons_icon_label:
  "parse_detail_areas_from_icon_features page_icon_label =
     \<lparr>m2_total = None, m2_covered = Some 100, m2_land = None\<rparr>"
  by (simp add: parse_detail_areas_from_icon_features_def page_icon_label_def num_or_def area_eval
      cong: bind_weak_cong)

lemma labels_icon_label:
  "parse_detail_areas_from_html page_icon_label =
     \<lparr>m2_total = None, m2_covered = Some 200, m2_land = None\<rparr>"
  by (simp add: parse_detail_areas_from_html_def page_icon_label_def area_eval
      cong: bind_weak_cong)

lemma jsonld_zero:
  "parse_detail_areas_from_jsonld cs (extract_jsonld page_zero_jsonld) =
     \<lparr>m2_total = Some 80, m2_covered = Some 0, m2_land = None\<rparr>"
  by (simp add: parse_detail_areas_from_jsonld_def extract_jsonld_def page_zero_jsonld_def
      List.map_filter_simps json_keys_def json_get_def clean_number_json_def u_def area_eval
      cong: bind_weak_cong)

lemma resolve_zero_jsonld:
  "resolve_areas cs page_zero_jsonld = \<lparr>m2_total = Some 80, m2_covered = Some 0, m2_land = None\<rparr>"
proof -
  have "parse_detail_areas_from_icon_features page_zero_jsonld = out0"
    by (simp add: parse_detail_areas_from_icon_features_def page_zero_jsonld_def)
  moreover have "parse_detail_areas_from_html page_zero_jsonld = out0"
    by (simp add: parse_detail_areas_from_html_def page_zero_jsonld_def)
  ultimately show ?thesis
    by (simp add: resolve_areas_def Let_def jsonld_zero merge_areas_def num_or_def out0_def)
qed

text \<open>
  C9, as stated, fails: an extractor stores the zero it parses. The icon list of
  \<open>page_zero_only\<close> reports \<open>0 m^2\<close> and the total is stored as 0; the structured metadata
  of \<open>page_zero_jsonld\<close> gives a floor size of 0, which is also the covered area of the
  merged record.
\<close>

theorem zero_area_is_stored:
  "m2_total (parse_detail_areas_from_icon_features page_zero_only) = Some 0 \<and>
   m2_covered (parse_detail_areas_from_jsonld no_container_str (extract_jsonld page_zero_jsonld)) = Some 0 \<and>
   m2_covered (resolve_areas no_container_str page_zero_jsonld) = Some 0"
  by (simp add: icons_zero_only jsonld_zero resolve_zero_jsonld)

text \<open>
  C9, amended. Every field of the record of each of the three extractors, and of the
  merged record, is null or a parsed number that is not negative.
\<close>

theorem area_fields_never_negative:
  "areas_ok (parse_detail_areas_from_icon_features page) \<and>
   areas_ok (parse_detail_areas_from_html page) \<and>
   areas_ok (parse_detail_areas_from_jsonld cs blks) \<and>
   areas_ok (resolve_areas cs page)"
  by (simp add: parse_detail_areas_from_icon_features_def parse_detail_areas_from_html_def
      parse_detail_areas_from_jsonld_def resolve_areas_def Let_def areas_ok_merge
      areas_ok_icon_loop areas_ok_html_loop areas_ok_jsonld_loop areas_ok_out0)

text \<open>
  C1, as stated, fails: the merge takes the first value that is truthy, and a zero is
  not. On \<open>page_zero_icon\<close> the icon extractor yields a total of 0 (not null), the labelled
  text yields 200, and the merged total is 200.
\<close>

theorem zero_icon_loses_to_label:
  "m2_total (parse_detail_areas_from_icon_features page_zero_icon) = Some 0 \<and>
   m2_total (parse_detail_areas_from_html page_zero_icon) = Some 200 \<and>
   m2_total (resolve_areas no_container_str page_zero_icon) = Some 200"
  by (simp add: icons_zero_icon labels_zero_icon resolve_areas_def Let_def merge_areas_def
      num_or_def)

text \<open>
  C1, amended. For each of the three fields, the merged value is the icon value when that
  is neither null nor zero, else the labelled-text value when that is neither null nor
  zero, else the structured-metadata value; an icon value of 100 wins over a labelled
  value of 200.
\<close>

theorem area_merge_priority:
  "out_get (resolve_areas cs page) t =
     (let i = out_get (parse_detail_areas_from_icon_features page) t;
          l = out_get (parse_detail_areas_from_html page) t;
          j = out_get (parse_detail_areas_from_jsonld cs (extract_jsonld page)) t
      in if i \<noteq> None \<and> i \<noteq> Some 0 then i else if l \<noteq> None \<and> l \<noteq> Some 0 then l else j) \<and>
   (m2_covered (parse_detail_areas_from_icon_features page) = Some 100 \<and>
    m2_covered (parse_detail_areas_from_html page) = Some 200 \<longrightarrow>
      m2_covered (resolve_areas cs page) = Some 100)"
  by (cases t) (auto simp: resolve_areas_def Let_def merge_areas_def num_or_def split: option.splits)

theorem area_merge_priority_witness:
  "m2_covered (parse_detail_areas_from_icon_features page_icon_label) = Some 100 \<and>
   m2_covered (parse_detail_areas_from_html page_icon_label) = Some 200 \<and>
   m2_covered (resolve_areas no_container_str page_icon_label) = Some 100"
  using area_merge_priority[of no_container_str page_icon_label Covered]
  by (simp add: icons_icon_label labels_icon_label)

section \<open>The export\<close>

lemma detail_fifty:
  "parse_listing_detail (ev_page page_fifty) l =
     Inr \<lparr>d_link = l, d_title = None, d_m2_total = None, d_m2_covered = Some 50,
          d_m2_land = None, d_detail_error = None\<rparr>"
proof -
  have "parse_detail_areas_from_icon_features page_fifty =
      \<lparr>m2_total = None, m2_covered = Some 50, m2_land = None\<rparr>"
    by (simp add: parse_detail_areas_from_icon_features_def page_fifty_def num_or_def area_eval
        cong: bind_weak_cong)
  moreover have "parse_detail_areas_from_html page_fifty = out0"
    by (simp add: parse_detail_areas_from_html_def page_fifty_def)
  moreover have "extract_jsonld page_fifty = []"
    by (simp add: extract_jsonld_def page_fifty_def List.map_filter_simps)
  ultimately have "resolve_areas no_container_str page_fifty =
      \<lparr>m2_total = None, m2_covered = Some 50, m2_land = None\<rparr>"
    by (simp add: resolve_areas_def Let_def merge_areas_def num_or_def jsonld_nothing out0_def)
  then show ?thesis
    by (simp add: parse_listing_detail_def ev_page_def Let_def) (simp add: page_fifty_def)
qed

lemma detail_zero_jsonld:
  "parse_listing_detail (ev_page page_zero_jsonld) l =
     Inr \<lparr>d_link = l, d_title = None, d_m2_total = Some 80, d_m2_covered = Some 0,
          d_m2_land = None, d_detail_error = None\<rparr>"
  by (simp add: parse_listing_detail_def ev_page_def Let_def resolve_zero_jsonld)
    (simp add: page_zero_jsonld_def)

lemma url_example_nonempty: "u ''/propiedades/a-1.html'' \<noteq> []"
  by (simp add: u_def)


lemma price_num_100000: "price_num ev (PInt 100000) = Inr (Some 100000)"
  by (simp add: price_num_def float_int_bound_def)

lemma card_priced_gets:
  "dict_get card_priced (u ''link'') = PNone"
  "dict_get card_priced (u ''url'') = PStr (u ''/propiedades/a-1.html'')"
  "dict_get card_priced (u ''price_value'') = PInt 100000"
  "dict_get card_priced (u ''square_meters_total_0'') = PNone"
  by (simp_all add: dict_get_def card_priced_def u_def)

text \<open>
  C4, as stated, fails: the denominator is \<open>m2_covered or m2_total\<close>, so a covered area
  of 0 (present, not positive) does not leave the price per square metre null when a
  total is known. With a price of 100000, a covered area of 0 and a total of 80 the row
  carries 1250.
\<close>

theorem zero_covered_falls_back_to_total:
  "precio_view (export_card (ev_page page_zero_jsonld) card_priced) =
     Some (PInt 100000, Some 0, Some 80, Some 1250)"
  by (simp add: export_card_def Let_def card_priced_gets py_or_def detail_zero_jsonld
      precio_view_def num_or_def price_num_100000 precio_def url_example_nonempty)


lemma num_or_char:
  "num_or a b = (if a \<noteq> None \<and> a \<noteq> Some 0 then a else b)"
  by (auto simp: num_or_def split: option.splits)

text \<open>
  C4, amended. In every exported row, \<open>precio_por_m2\<close> is the price divided by the
  denominator exactly when the price is present and converts to a number and the
  denominator is present and strictly positive, and null otherwise; the denominator is
  \<open>m2_covered\<close> when that is neither null nor zero, and \<open>m2_total\<close> otherwise.
\<close>

theorem precio_por_m2_rule:
  assumes "export_card ev crd = Inr (Some row)"
  shows "r_precio_por_m2 row =
       (case (price_num ev (r_price_value row),
              if r_m2_covered row \<noteq> None \<and> r_m2_covered row \<noteq> Some 0 then r_m2_covered row
              else r_m2_total row) of
          (Inr (Some p), Some d) \<Rightarrow> if 0 < d then Some (p / d) else None
        | _ \<Rightarrow> None) \<and>
     (\<exists>pn. price_num ev (r_price_value row) = Inr pn)"
proof -
  from assms obtain pn where pn: "price_num ev (r_price_value row) = Inr pn"
    and pr: "r_precio_por_m2 row = precio pn (num_or (r_m2_covered row) (r_m2_total row))"
    by (auto simp: export_card_def Let_def split: if_splits sum.splits exn.splits)
  from pr have "r_precio_por_m2 row =
       (case (price_num ev (r_price_value row),
              if r_m2_covered row \<noteq> None \<and> r_m2_covered row \<noteq> Some 0 then r_m2_covered row
              else r_m2_total row) of
          (Inr (Some p), Some d) \<Rightarrow> if 0 < d then Some (p / d) else None
        | _ \<Rightarrow> None)"
    unfolding pn by (cases pn) (simp_all add: precio_def num_or_char split: option.splits)
  with pn show ?thesis by blast
qed

lemma export_fifty: "export_card (ev_page page_fifty) card_priced = Inr (Some row_fifty)"
  by (simp add: export_card_def Let_def card_priced_gets py_or_def detail_fifty
      num_or_def price_num_100000 precio_def url_example_nonempty row_fifty_def)
    (simp add: dict_get_def card_priced_def u_def)

lemma detail_zero_covered:
  "parse_listing_detail (ev_page page_zero_covered) l =
     Inr \<lparr>d_link = l, d_title = None, d_m2_total = None, d_m2_covered = Some 0,
          d_m2_land = None, d_detail_error = None\<rparr>"
proof -
  have "parse_detail_areas_from_jsonld cs (extract_jsonld page_zero_covered) =
     \<lparr>m2_total = None, m2_covered = Some 0, m2_land = None\<rparr>" for cs
    by (simp add: parse_detail_areas_from_jsonld_def extract_jsonld_def page_zero_covered_def
        List.map_filter_simps json_keys_def json_get_def clean_number_json_def u_def area_eval
        cong: bind_weak_cong)
  moreover have "parse_detail_areas_from_icon_features page_zero_covered = out0"
    by (simp add: parse_detail_areas_from_icon_features_def page_zero_covered_def)
  moreover have "parse_detail_areas_from_html page_zero_covered = out0"
    by (simp add: parse_detail_areas_from_html_def page_zero_covered_def)
  ultimately have "resolve_areas no_container_str page_zero_covered =
      \<lparr>m2_total = None, m2_covered = Some 0, m2_land = None\<rparr>"
    by (simp add: resolve_areas_def Let_def merge_areas_def num_or_def out0_def)
  then show ?thesis
    by (simp add: parse_listing_detail_def ev_page_def Let_def) (simp add: page_zero_covered_def)
qed

lemma export_zero_covered:
  "precio_view (export_card (ev_page page_zero_covered) card_priced) =
     Some (PInt 100000, Some 0, None, None)"
  by (simp add: export_card_def Let_def card_priced_gets py_or_def detail_zero_covered
      precio_view_def num_or_def price_num_100000 precio_def url_example_nonempty clean_number.simps)

text \<open>
  A price of 100000 with a covered area of 50 gives 2000; a covered area of 0 with no
  total gives null.
\<close>

theorem precio_por_m2_rule_witness:
  "export_card (ev_page page_fifty) card_priced = Inr (Some row_fifty) \<and>
   r_price_value row_fifty = PInt 100000 \<and> r_m2_covered row_fifty = Some 50 \<and>
   r_precio_por_m2 row_fifty = Some 2000 \<and>
   precio_view (export_card (ev_page page_zero_covered) card_priced) =
     Some (PInt 100000, Some 0, None, None)"
  using precio_por_m2_rule[OF export_fifty] export_fifty export_zero_covered
  by (simp add: row_fifty_def)





lemma detail_down:
  "parse_listing_detail ev_down l = Inl (PyExc (u ''ConnectionError'') (u ''timed out''))"
  by (simp add: parse_listing_detail_def ev_down_def)



text \<open>
  The price the amended statement leaves out: an integer of 401 digits makes the price
  conversion raise after the detail page has been handled, and the loop is left.
\<close>

lemma huge_price_aborts: "export_loop ev_down [card_huge] = Inl OverflowError"
proof -
  have g: "dict_get card_huge (u ''link'') = PNone"
    "dict_get card_huge (u ''url'') = PStr (u ''/propiedades/a-1.html'')"
    "dict_get card_huge (u ''price_value'') = PInt huge_price"
    by (simp_all add: dict_get_def card_huge_def u_def)
  have n: "url_norm ev_down l = Inr l" for l
    by (simp add: ev_down_def)
  have p: "price_num ev_down (PInt huge_price) = Inl OverflowError"
    by (simp add: price_num_def float_int_bound_def huge_price_def)
  show ?thesis
    by (simp add: export_card_def Let_def g py_or_def url_example_nonempty detail_down n p)
qed


lemma quantity_nourl: "get_estates_quantity (get_page (ev_page (page_nourl a))) b = Inr 10"
  by (simp add: get_estates_quantity_def ev_page_def page_nourl_def amount_rx_def rx_eval
      grp_def remove_char_def digits_val_def cong: bind_weak_cong)

text \<open>
  C8. A card without its URL attribute ends the whole run with an exception, and no row
  is exported: with the attribute list \<open>[None]\<close> the first loop of the export raises
  TypeError on \<open>_normalize_url(None)\<close>, since the key \<open>url\<close> is present; with the empty
  attribute list \<open>parse_estate\<close> raises IndexError, which leaves \<open>scrap_website\<close>.
\<close>

theorem missing_url_aborts_run:
  "export_search (ev_page (page_nourl [PNone])) (u ''casas'') None = Some (Inl TypeError) \<and>
   export_search (ev_page (page_nourl [])) (u ''casas'') None = Some (Inl IndexError)"
proof
  let ?ev = "ev_page (page_nourl [PNone])"
  let ?c = "[(u ''url'', PNone)] :: card"
  have p: "scrap_page (get_page ?ev) (u ''casas'') 1 = Inr (?c # replicate 9 card0)"
    by (simp add: scrap_page_def ev_page_def page_nourl_def parse_estate_def
        parse_estates_replicate[OF parse_estate_post0])
  have "scrap_loop (get_page ?ev) (u ''casas'') 10 1 [] 0 [] =
      scrap_loop (get_page ?ev) (u ''casas'') 10 2 (?c # replicate 9 card0) 10 [1]"
    using p by (subst scrap_loop.simps) (simp add: numeral_2_eq_2)
  also have "\<dots> = Some ([1], Inr (?c # replicate 9 card0))"
    by (subst scrap_loop.simps) simp
  finally have w: "scrap_website (get_page ?ev) (u ''casas'') = Some ([1], Inr (?c # replicate 9 card0))"
    by (simp add: scrap_website_def quantity_nourl)
  have "link_cards ?ev (?c # replicate 9 card0) = Inl TypeError"
    by (simp add: dict_get_def)
  then show "export_search ?ev (u ''casas'') None = Some (Inl TypeError)"
    by (simp add: export_search_def w export_cards_def)
next
  let ?ev = "ev_page (page_nourl [])"
  have p: "scrap_page (get_page ?ev) (u ''casas'') 1 = Inl IndexError"
    by (simp add: scrap_page_def ev_page_def page_nourl_def parse_estate_def)
  have "scrap_loop (get_page ?ev) (u ''casas'') 10 1 [] 0 [] = Some ([1], Inl IndexError)"
    using p by (subst scrap_loop.simps) simp
  then have "scrap_website (get_page ?ev) (u ''casas'') = Some ([1], Inl IndexError)"
    by (simp add: scrap_website_def quantity_nourl)
  then show "export_search ?ev (u ''casas'') None = Some (Inl IndexError)"
    by (simp add: export_search_def)
qed

section \<open>Feature strings\<close>

lemma str_nat_digits: "c \<in> set (str_nat n) \<Longrightarrow> 48 \<le> c \<and> c \<le> 57"
proof (induction n arbitrary: c rule: str_nat.induct)
  case (1 n)
  show ?case
  proof (cases "n < 10")
    case True
    with "1.prems" show ?thesis by (subst (asm) str_nat.simps) auto
  next
    case False
    with "1.prems" have "c \<in> set (str_nat (n div 10)) \<or> c = 48 + n mod 10"
      by (subst (asm) str_nat.simps) auto
    with "1.IH"[OF False] show ?thesis by auto
  qed
qed

lemma digits_val_snoc: "digits_val (xs @ [c]) = 10 * digits_val xs + (c - 48)"
  by (simp add: digits_val_def)

lemma digits_val_str_nat: "digits_val (str_nat n) = n"
proof (induction n rule: str_nat.induct)
  case (1 n)
  show ?case
  proof (cases "n < 10")
    case True
    then show ?thesis by (subst str_nat.simps) (simp add: digits_val_def)
  next
    case False
    have "digits_val (str_nat n) = 10 * digits_val (str_nat (n div 10)) + (48 + n mod 10 - 48)"
      using False by (subst str_nat.simps) (simp add: digits_val_snoc)
    with "1.IH"[OF False] show ?thesis by simp
  qed
qed

lemma str_nat_inj: "str_nat a = str_nat b \<Longrightarrow> a = b"
  by (metis digits_val_str_nat)

lemma takeWhile_stop:
  "\<forall>x\<in>set xs. P x \<Longrightarrow> \<not> P y \<Longrightarrow> takeWhile P (xs @ y # ys) = xs"
  by (induction xs) auto

lemma split_last_underscore:
  assumes "95 \<notin> set (d1 :: nat list)" "95 \<notin> set d2" "b1 @ 95 # d1 = b2 @ 95 # d2"
  shows "b1 = b2 \<and> d1 = d2"
proof -
  have "rev d1 @ 95 # rev b1 = rev d2 @ 95 # rev b2"
    using arg_cong[OF assms(3), of rev] by simp
  then have "takeWhile (\<lambda>c. c \<noteq> 95) (rev d1 @ 95 # rev b1) =
      takeWhile (\<lambda>c. c \<noteq> 95) (rev d2 @ 95 # rev b2)"
    by simp
  moreover have "takeWhile (\<lambda>c. c \<noteq> 95) (rev d1 @ 95 # rev b1) = rev d1"
    using assms(1) by (intro takeWhile_stop) auto
  moreover have "takeWhile (\<lambda>c. c \<noteq> 95) (rev d2 @ 95 # rev b2) = rev d2"
    using assms(2) by (intro takeWhile_stop) auto
  ultimately have "d1 = d2" by simp
  with assms(3) show ?thesis by simp
qed

lemma feature_key_inj:
  "b1 @ u ''_'' @ str_nat k1 = b2 @ u ''_'' @ str_nat k2 \<Longrightarrow> b1 = b2 \<and> k1 = k2"
proof -
  assume eq: "b1 @ u ''_'' @ str_nat k1 = b2 @ u ''_'' @ str_nat k2"
  have n: "95 \<notin> set (str_nat k)" for k
    using str_nat_digits[of 95 k] by auto
  from eq have "b1 @ 95 # str_nat k1 = b2 @ 95 # str_nat k2"
    by (simp add: u_def)
  from split_last_underscore[OF n n this] show ?thesis
    by (auto dest: str_nat_inj)
qed

lemma update_fresh: "k \<notin> fst ` set al \<Longrightarrow> AList.update k v al = al @ [(k, v)]"
  by (induction al) auto

lemma map_upt_shift: "map f [0..<Suc n] = f 0 # map (\<lambda>i. f (Suc i)) [0..<n]"
  by (simp add: map_upt_Suc del: upt_Suc)

lemma features_loop_indexed:
  assumes "\<forall>t\<in>set toks. (case t of (v, un, q) \<Rightarrow> base_key_of un q) \<in> dom (map_of fa)"
    and "\<forall>b n j. map_of fa b = Some n \<longrightarrow> n \<le> j \<longrightarrow> b @ u ''_'' @ str_nat j \<notin> fst ` set F"
  shows "fst (features_loop toks (F, fa)) =
     F @ map (\<lambda>i. (case toks ! i of (v, un, q) \<Rightarrow>
              (base_key_of un q @ u ''_'' @
                 str_nat (the (map_of fa (base_key_of un q)) +
                   count_list (take i (map (\<lambda>(v, un, q). base_key_of un q) toks)) (base_key_of un q)),
               normalize_number v))) [0..<length toks]"
  using assms
proof (induction toks arbitrary: F fa)
  case Nil
  then show ?case by simp
next
  case (Cons t ts)
  obtain v un q where t: "t = (v, un, q)" by (cases t)
  define b where "b = base_key_of un q"
  from Cons.prems(1) t obtain n where n: "map_of fa b = Some n"
    by (auto simp: b_def)
  define k0 where "k0 = b @ u ''_'' @ str_nat n"
  define F' where "F' = F @ [(k0, normalize_number v)]"
  define fa' where "fa' = AList.update b (n + 1) fa"
  have fresh0: "k0 \<notin> fst ` set F"
    using Cons.prems(2) n unfolding k0_def by blast
  have step: "features_loop (t # ts) (F, fa) = features_loop ts (F', fa')"
    using n fresh0 by (simp add: t Let_def b_def[symmetric] k0_def[symmetric] F'_def fa'_def update_fresh)
  have mfa': "map_of fa' = (map_of fa)(b \<mapsto> n + 1)"
    by (simp add: fa'_def update_conv')
  have dom': "\<forall>t\<in>set ts. (case t of (v, un, q) \<Rightarrow> base_key_of un q) \<in> dom (map_of fa')"
    using Cons.prems(1) by (auto simp: mfa')
  have fresh': "\<forall>b' n' j. map_of fa' b' = Some n' \<longrightarrow> n' \<le> j \<longrightarrow>
      b' @ u ''_'' @ str_nat j \<notin> fst ` set F'"
  proof (intro allI impI)
    fix b' n' j
    assume m: "map_of fa' b' = Some n'" and le: "n' \<le> j"
    show "b' @ u ''_'' @ str_nat j \<notin> fst ` set F'"
    proof (cases "b' = b")
      case True
      with m have "n' = n + 1" by (simp add: mfa')
      with le have "n \<le> j" "j \<noteq> n" by auto
      with Cons.prems(2) n True have "b' @ u ''_'' @ str_nat j \<notin> fst ` set F"
        by blast
      moreover have "b' @ u ''_'' @ str_nat j \<noteq> k0"
        using \<open>j \<noteq> n\<close> unfolding k0_def by (auto dest: feature_key_inj)
      ultimately show ?thesis by (simp add: F'_def)
    next
      case False
      with m have "map_of fa b' = Some n'" by (simp add: mfa')
      with Cons.prems(2) le have "b' @ u ''_'' @ str_nat j \<notin> fst ` set F"
        by blast
      moreover have "b' @ u ''_'' @ str_nat j \<noteq> k0"
        using False unfolding k0_def by (auto dest: feature_key_inj)
      ultimately show ?thesis by (simp add: F'_def)
    qed
  qed
  note IH = Cons.IH[OF dom' fresh']
  have idx: "the (map_of fa' x) + count_list bs x =
      the (map_of fa x) + count_list (b # bs) x" for x bs
    using n by (auto simp: mfa')
  show ?case
    unfolding step IH map_upt_shift length_Cons
    by (simp add: F'_def k0_def t b_def[symmetric] n idx case_prod_unfold)
qed

lemma in_rx_run_Seq:
  "(s', c') \<in> set (rx_run ci (Seq a b) s c) \<longleftrightarrow>
     (\<exists>s1 c1. (s1, c1) \<in> set (rx_run ci a s c) \<and> (s', c') \<in> set (rx_run ci b s1 c1))"
  by (auto simp: rx_run.simps)

lemma in_rx_run_Alt:
  "(s', c') \<in> set (rx_run ci (Alt a b) s c) \<longleftrightarrow>
     (s', c') \<in> set (rx_run ci a s c) \<or> (s', c') \<in> set (rx_run ci b s c)"
  by (simp add: rx_run.simps)

lemma in_rx_run_Grp:
  "(s', c') \<in> set (rx_run ci (Grp n a) s c) \<longleftrightarrow>
     (\<exists>c1. (s', c1) \<in> set (rx_run ci a s c) \<and> c' = c1(n \<mapsto> take (length s - length s') s))"
  by (auto simp: rx_run.simps)

lemma in_rx_run_Star:
  "(s', c') \<in> set (rx_run ci (Star a) s c) \<longleftrightarrow>
     (s', c') = (s, c) \<or>
     (\<exists>s1 c1. (s1, c1) \<in> set (rx_run ci a s c) \<and> length s1 < length s \<and>
        (s', c') \<in> set (rx_run ci (Star a) s1 c1))"
  by (subst rx_run.simps) (auto split: if_splits)

lemma in_rx_run_Eps: "(s', c') \<in> set (rx_run ci Eps s c) \<longleftrightarrow> s' = s \<and> c' = c"
  by (auto simp: rx_run.simps)

lemma in_rx_run_Lit:
  "(s', c') \<in> set (rx_run ci (Lit p) s c) \<longleftrightarrow> (\<exists>x. s = x # s' \<and> lit_match ci p x \<and> c' = c)"
  by (auto simp: rx_run.simps split: list.splits)

lemma rx_run_suffix:
  "(s', c') \<in> set (rx_run ci r s c) \<Longrightarrow> \<exists>w. s = w @ s'"
proof (induction ci r s c arbitrary: s' c' rule: rx_run.induct)
  case (6 ci a b s caps)
  from "6.prems" obtain s1 c1 where
    a: "(s1, c1) \<in> set (rx_run ci a s caps)" and b: "(s', c') \<in> set (rx_run ci b s1 c1)"
    by (auto simp: in_rx_run_Seq)
  from "6.IH"(1)[OF a] obtain w1 where "s = w1 @ s1" by blast
  moreover from "6.IH"(2)[OF a refl b] obtain w2 where "s1 = w2 @ s'" by blast
  ultimately show ?case by simp
next
  case (7 ci a b s caps)
  then show ?case by (auto simp: in_rx_run_Alt)
next
  case (8 ci a s caps)
  from "8.prems" consider "(s', c') = (s, caps)"
    | s1 c1 where "(s1, c1) \<in> set (rx_run ci a s caps)" "length s1 < length s"
        "(s', c') \<in> set (rx_run ci (Star a) s1 c1)"
    by (subst (asm) in_rx_run_Star) blast
  then show ?case
  proof cases
    case 1
    then show ?thesis by simp
  next
    case 2
    from "8.IH"(1)[OF 2(1)] obtain w1 where "s = w1 @ s1" by blast
    moreover from "8.IH"(2)[OF 2(1) refl 2(2) 2(3)] obtain w2 where "s1 = w2 @ s'" by blast
    ultimately show ?thesis by simp
  qed
next
  case (9 ci n a s caps)
  then show ?case by (auto simp: in_rx_run_Grp)
qed (auto simp: rx_run.simps split: list.splits if_splits)

lemma rx_run_frame:
  "(s', c') \<in> set (rx_run ci r s c) \<Longrightarrow> n \<notin> groups r \<Longrightarrow> c' n = c n"
proof (induction ci r s c arbitrary: s' c' rule: rx_run.induct)
  case (6 ci a b s caps)
  from "6.prems" obtain s1 c1 where
    a: "(s1, c1) \<in> set (rx_run ci a s caps)" and b: "(s', c') \<in> set (rx_run ci b s1 c1)"
    by (auto simp: in_rx_run_Seq)
  from "6.IH"(1)[OF a] "6.prems"(2) have "c1 n = caps n" by simp
  moreover from "6.IH"(2)[OF a refl b] "6.prems"(2) have "c' n = c1 n" by simp
  ultimately show ?case by simp
next
  case (7 ci a b s caps)
  then show ?case by (auto simp: in_rx_run_Alt)
next
  case (8 ci a s caps)
  from "8.prems"(1) consider "(s', c') = (s, caps)"
    | s1 c1 where "(s1, c1) \<in> set (rx_run ci a s caps)" "length s1 < length s"
        "(s', c') \<in> set (rx_run ci (Star a) s1 c1)"
    by (subst (asm) in_rx_run_Star) blast
  then show ?case
  proof cases
    case 1
    then show ?thesis by simp
  next
    case 2
    from "8.IH"(1)[OF 2(1)] "8.prems"(2) have "c1 n = caps n" by simp
    moreover from "8.IH"(2)[OF 2(1) refl 2(2) 2(3)] "8.prems"(2) have "c' n = c1 n" by simp
    ultimately show ?thesis by simp
  qed
next
  case (9 ci m a s caps)
  then show ?case by (auto simp: in_rx_run_Grp)
qed (auto simp: rx_run.simps split: list.splits if_splits)

lemma rx_run_Lits:
  "(s', c') \<in> set (rx_run ci (Lits p) s c) \<Longrightarrow>
     c' = c \<and> (\<exists>w. s = w @ s' \<and> list_all2 (lit_match ci) p w)"
proof (induction p arbitrary: s)
  case Nil
  then show ?case by (simp add: in_rx_run_Eps)
next
  case (Cons x p)
  from Cons.prems obtain y s1 where s: "s = y # s1" "lit_match ci x y"
    and r: "(s', c') \<in> set (rx_run ci (Lits p) s1 c)"
    by (auto simp: in_rx_run_Seq in_rx_run_Lit)
  from Cons.IH[OF r] obtain w where "c' = c" "s1 = w @ s'" "list_all2 (lit_match ci) p w"
    by blast
  with s have "s = (y # w) @ s'" "list_all2 (lit_match ci) (x # p) (y # w)"
    by simp_all
  with \<open>c' = c\<close> show ?case by blast
qed

lemma rx_run_Lits_Opt:
  assumes "(s', c') \<in> set (rx_run ci (Seq (Lits p) (Opt (Lit x))) s c)"
  shows "\<exists>w. s = w @ s' \<and> (list_all2 (lit_match ci) p w \<or> list_all2 (lit_match ci) (p @ [x]) w)"
proof -
  from assms obtain s1 c1 where a: "(s1, c1) \<in> set (rx_run ci (Lits p) s c)"
    and b: "(s', c') \<in> set (rx_run ci (Opt (Lit x)) s1 c1)"
    by (auto simp: in_rx_run_Seq)
  from rx_run_Lits[OF a] obtain w where w: "s = w @ s1" "list_all2 (lit_match ci) p w"
    by blast
  from b consider y where "s1 = y # s'" "lit_match ci x y" | "s' = s1"
    by (auto simp: Opt_def in_rx_run_Alt in_rx_run_Lit in_rx_run_Eps)
  then show ?thesis
  proof cases
    case 1
    with w have "s = (w @ [y]) @ s'" "list_all2 (lit_match ci) (p @ [x]) (w @ [y])"
      by (simp_all add: list_all2_appendI)
    then show ?thesis by blast
  next
    case 2
    with w show ?thesis by blast
  qed
qed

lemma findall_from_run:
  "c \<in> set (findall ci r s) \<Longrightarrow>
     \<exists>pre t rest. s = pre @ t \<and> (rest, c) \<in> set (rx_run ci r t Map.empty)"
proof (induction ci r s rule: findall.induct)
  case (1 ci r)
  then show ?case
    by (cases "rx_run ci r [] Map.empty") (auto simp: findall.simps)
next
  case (2 ci r x xs)
  show ?case
  proof (cases "rx_run ci r (x # xs) Map.empty")
    case Nil
    with "2.prems" have "c \<in> set (findall ci r xs)"
      by (simp add: findall.simps)
    from "2.IH"(1)[OF Nil this] obtain pre t rest where
      "xs = pre @ t" "(rest, c) \<in> set (rx_run ci r t Map.empty)" by blast
    then have "x # xs = (x # pre) @ t" by simp
    with \<open>(rest, c) \<in> _\<close> show ?thesis by blast
  next
    case (Cons m ms)
    obtain s1 c1 where m: "m = (s1, c1)" by (cases m)
    have first: "(s1, c1) \<in> set (rx_run ci r (x # xs) Map.empty)"
      using Cons m by simp
    from rx_run_suffix[OF first] obtain w where w: "x # xs = w @ s1" by blast
    show ?thesis
    proof (cases "c = c1")
      case True
      with first have "x # xs = [] @ (x # xs) \<and> (s1, c) \<in> set (rx_run ci r (x # xs) Map.empty)"
        by simp
      then show ?thesis by blast
    next
      case False
      show ?thesis
      proof (cases "length s1 < length (x # xs)")
        case True
        with "2.prems" Cons m False have "c \<in> set (findall ci r s1)"
          by (simp add: findall.simps)
        from "2.IH"(2)[OF Cons m[symmetric] True this] obtain pre t rest where
          "s1 = pre @ t" "(rest, c) \<in> set (rx_run ci r t Map.empty)" by blast
        with w have "x # xs = (w @ pre) @ t" by simp
        with \<open>(rest, c) \<in> _\<close> show ?thesis by blast
      next
        case F: False
        with "2.prems" Cons m False have "c \<in> set (findall ci r xs)"
          by (simp add: findall.simps)
        from "2.IH"(3)[OF Cons m[symmetric] F this] obtain pre t rest where
          "xs = pre @ t" "(rest, c) \<in> set (rx_run ci r t Map.empty)" by blast
        then have "x # xs = (x # pre) @ t" by simp
        with \<open>(rest, c) \<in> _\<close> show ?thesis by blast
      qed
    qed
  qed
qed

lemma unit_wordI: "p \<in> set unit_literals \<Longrightarrow> list_all2 (lit_match True) p w \<Longrightarrow> unit_word w"
  by (auto simp: unit_word_def)

lemma rx_run_unit:
  assumes "(s', c') \<in> set (rx_run True unit_rx s c)"
  shows "\<exists>w. s = w @ s' \<and> unit_word w"
proof -
  from assms consider
      "(s', c') \<in> set (rx_run True (Lits (u ''m'' @ [178])) s c)"
    | "(s', c') \<in> set (rx_run True (Lits (u ''m2'')) s c)"
    | "(s', c') \<in> set (rx_run True (Seq (Lits (u ''amb'')) (Opt (Lit 46))) s c)"
    | "(s', c') \<in> set (rx_run True (Seq (Lits (u ''dorm'')) (Opt (Lit 46))) s c)"
    | "(s', c') \<in> set (rx_run True (Seq (Lits (u ''ba'' @ [241] @ u ''o'')) (Opt (Lit 115))) s c)"
    | "(s', c') \<in> set (rx_run True (Lits (u ''ba'' @ [241] @ u ''o'')) s c)"
    | "(s', c') \<in> set (rx_run True (Seq (Lits (u ''coch'')) (Opt (Lit 46))) s c)"
    unfolding unit_rx_def in_rx_run_Alt by blast
  then show ?thesis
  proof cases
    case 1
    from rx_run_Lits[OF this] show ?thesis
      by (auto intro!: unit_wordI simp: unit_literals_def)
  next
    case 2
    from rx_run_Lits[OF this] show ?thesis
      by (auto intro!: unit_wordI simp: unit_literals_def)
  next
    case 3
    from rx_run_Lits_Opt[OF this] show ?thesis
      by (auto intro!: unit_wordI simp: unit_literals_def)
  next
    case 4
    from rx_run_Lits_Opt[OF this] show ?thesis
      by (auto intro!: unit_wordI simp: unit_literals_def)
  next
    case 5
    from rx_run_Lits_Opt[OF this] show ?thesis
      by (auto intro!: unit_wordI simp: unit_literals_def)
  next
    case 6
    from rx_run_Lits[OF this] show ?thesis
      by (auto intro!: unit_wordI simp: unit_literals_def)
  next
    case 7
    from rx_run_Lits_Opt[OF this] show ?thesis
      by (auto intro!: unit_wordI simp: unit_literals_def)
  qed
qed

lemma groups_Lits: "groups (Lits p) = {}"
  by (induction p) simp_all

lemma rx_run_feature_unit:
  assumes "(rest, caps) \<in> set (rx_run True feature_rx s Map.empty)"
  shows "\<exists>pre w post. s = pre @ w @ post \<and> caps 2 = Some w \<and> unit_word w"
proof -
  let ?tail = "Opt (Seq (Star Space) (Grp 3 qualifier_rx))"
  from assms obtain s1 c1 s2 c2 s3 c3 where
    g1: "(s1, c1) \<in> set (rx_run True (Grp 1 number_rx) s Map.empty)"
    and sp: "(s2, c2) \<in> set (rx_run True (Star Space) s1 c1)"
    and g2: "(s3, c3) \<in> set (rx_run True (Grp 2 unit_rx) s2 c2)"
    and tl: "(rest, caps) \<in> set (rx_run True ?tail s3 c3)"
    unfolding feature_rx_def in_rx_run_Seq by blast
  from g2 obtain c2' where un: "(s3, c2') \<in> set (rx_run True unit_rx s2 c2)"
    and c3: "c3 = c2'(2 \<mapsto> take (length s2 - length s3) s2)"
    by (auto simp: in_rx_run_Grp)
  from rx_run_unit[OF un] obtain w where w: "s2 = w @ s3" "unit_word w" by blast
  have "2 \<notin> groups ?tail"
    by (simp add: Opt_def qualifier_rx_def groups_Lits)
  from rx_run_frame[OF tl this] c3 w(1) have cap: "caps 2 = Some w"
    by simp
  from rx_run_suffix[OF g1] obtain a where "s = a @ s1" by blast
  moreover from rx_run_suffix[OF sp] obtain b where "s1 = b @ s2" by blast
  ultimately have "s = (a @ b) @ w @ s3"
    using w(1) by simp
  with cap w(2) show ?thesis by blast
qed

lemma feature_tokens_unit:
  assumes "(v, un, q) \<in> set (feature_tokens text)"
  shows "unit_word un \<and> set un \<subseteq> set text"
proof -
  from assms obtain c where c: "c \<in> set (findall True feature_rx text)" and un: "un = grp c 2"
    by (auto simp: feature_tokens_def)
  from findall_from_run[OF c] obtain pre t rest where
    t: "text = pre @ t" "(rest, c) \<in> set (rx_run True feature_rx t Map.empty)" by blast
  from rx_run_feature_unit[OF t(2)] obtain pre' w post where
    w: "t = pre' @ w @ post" "c 2 = Some w" "unit_word w" by blast
  from un w(2) have "un = w" by (simp add: grp_def)
  with t(1) w show ?thesis by auto
qed

lemma lit_match_unit_char:
  assumes "lit_match True p c" "c \<noteq> 383" "p \<in> unit_chars"
  shows "lower_cp c = [p] \<and> \<not> is_space c"
proof -
  from assms(3) consider "p = 109" | "p = 178" | "p = 50" | "p = 97" | "p = 98" | "p = 46"
    | "p = 100" | "p = 111" | "p = 114" | "p = 241" | "p = 115" | "p = 99" | "p = 104"
    by (auto simp: unit_chars_def)
  then show ?thesis
    using assms(1,2)
    by cases (auto simp: lit_match_def sre_lower_def ci_class_def lower_cp_def is_space_def
        split: if_splits)
qed

lemma unit_match_lower:
  "list_all2 (lit_match True) p w \<Longrightarrow> 383 \<notin> set w \<Longrightarrow> set p \<subseteq> unit_chars \<Longrightarrow>
     lower w = p \<and> (\<forall>c\<in>set w. \<not> is_space c)"
proof (induction rule: list_all2_induct)
  case Nil
  then show ?case by (simp add: lower_def)
next
  case (Cons x xs y ys)
  from Cons.prems Cons.hyps(1) have "lower_cp y = [x] \<and> \<not> is_space y"
    by (intro lit_match_unit_char) auto
  moreover from Cons have "lower ys = xs \<and> (\<forall>c\<in>set ys. \<not> is_space c)"
    by simp
  ultimately show ?case by (simp add: lower_def)
qed

lemma strip_no_space: "\<forall>c\<in>set w. \<not> is_space c \<Longrightarrow> strip w = w"
proof -
  assume a: "\<forall>c\<in>set w. \<not> is_space c"
  then have "dropWhile is_space w = w"
    by (cases w) auto
  moreover from a have "dropWhile is_space (rev w) = rev w"
    by (cases "rev w") (auto simp: rev_is_Nil_conv dest: arg_cong[where f = set])
  ultimately show ?thesis by (simp add: strip_def)
qed

lemma unit_literals_chars: "p \<in> set unit_literals \<Longrightarrow> set p \<subseteq> unit_chars"
  by (auto simp: unit_literals_def unit_chars_def u_def)

lemma normalize_unit_literal:
  "p \<in> set unit_literals \<Longrightarrow>
   (let r = rstrip_dot p in
      if r \<in> {m2, u ''m2''} then m2
      else if r \<in> {u ''amb'', u ''ambs''} then u ''amb''
      else if r \<in> {u ''dorm'', u ''dorms''} then u ''dorm''
      else if r \<in> {bano, banos} then banos
      else if r \<in> {u ''coch'', u ''cocheras''} then u ''coch''
      else r) \<in> set [m2, u ''amb'', u ''dorm'', banos, u ''coch'']"
  by (auto simp: unit_literals_def rstrip_dot_def m2_def bano_def banos_def u_def)

lemma normalize_unit_known:
  assumes "unit_word w" "383 \<notin> set w"
  shows "normalize_unit w \<in> set [m2, u ''amb'', u ''dorm'', banos, u ''coch'']"
proof -
  from assms(1) obtain p where p: "p \<in> set unit_literals" "list_all2 (lit_match True) p w"
    by (auto simp: unit_word_def)
  from unit_match_lower[OF p(2) assms(2) unit_literals_chars[OF p(1)]]
  have "lower w = p" "strip w = w"
    by (simp_all add: strip_no_space)
  then have "normalize_unit w =
    (let r = rstrip_dot p in
      if r \<in> {m2, u ''m2''} then m2
      else if r \<in> {u ''amb'', u ''ambs''} then u ''amb''
      else if r \<in> {u ''dorm'', u ''dorms''} then u ''dorm''
      else if r \<in> {bano, banos} then banos
      else if r \<in> {u ''coch'', u ''cocheras''} then u ''coch''
      else r)"
    by (simp add: normalize_unit_def)
  with normalize_unit_literal[OF p(1)] show ?thesis by simp
qed

lemma base_key_known:
  assumes "normalize_unit un \<in> set [m2, u ''amb'', u ''dorm'', banos, u ''coch'']"
  shows "base_key_of un q \<in> dom (map_of features_appearance0)"
proof -
  from assms consider "normalize_unit un = m2" | "normalize_unit un = u ''amb''"
    | "normalize_unit un = u ''dorm''" | "normalize_unit un = banos" | "normalize_unit un = u ''coch''"
    by auto
  then show ?thesis
  proof cases
    case 1
    have "area_kind q \<in> {None, Some (u ''square_meters_total''),
        Some (u ''square_meters_covered''), Some (u ''square_meters_land'')}"
      by (simp add: area_kind_def Let_def)
    then show ?thesis
      using 1 by (auto simp: base_key_of_def Let_def features_appearance0_def u_def)
  qed (simp_all add: base_key_of_def Let_def FEATURE_UNIT_DICT_def features_appearance0_def
      m2_def bano_def banos_def u_def)
qed

lemma counters_start: "b \<in> dom (map_of features_appearance0) \<Longrightarrow> the (map_of features_appearance0 b) = 0"
  by (auto simp: features_appearance0_def split: if_splits)

lemma distinct_features_loop:
  "distinct (map fst F) \<Longrightarrow> distinct (map fst (fst (features_loop toks (F, fa))))"
proof (induction toks arbitrary: F fa)
  case Nil
  then show ?case by simp
next
  case (Cons t ts)
  obtain v un q where t: "t = (v, un, q)" by (cases t)
  show ?case
    using Cons.prems
    by (cases "map_of fa (base_key_of un q)")
      (simp_all add: t Let_def Cons.IH distinct_update)
qed

lemma tokens_example:
  "feature_tokens features_example =
     [(u ''771'', u ''m'' @ [178], u ''tot.''), (u ''8'', u ''amb.'', []),
      (u ''4'', u ''dorm.'', []), (u ''3'', u ''ba'' @ [241] @ u ''os'', []),
      (u ''1'', u ''coch.'', [])]"
  by (simp add: feature_tokens_def features_example_def feature_rx_def unit_rx_def
      qualifier_rx_def number_rx_def grp_def rx_eval Lits.simps cong: bind_weak_cong)

lemmas features_eval = base_key_of_def normalize_unit_def normalize_number_def area_kind_def
  strip_def rstrip_dot_def lower_def lower_cp_def replace_char_def remove_char_def
  is_space_def m2_def banos_def bano_def FEATURE_UNIT_DICT_def features_appearance0_def u_def
  str_nat_digit

lemma tokens_long_s:
  "feature_tokens features_long_s =
     [(u ''3'', u ''ba'' @ [241] @ u ''o'' @ [383], []),
      (u ''2'', u ''ba'' @ [241] @ u ''o'' @ [383], [])]"
  by (simp add: feature_tokens_def features_long_s_def feature_rx_def unit_rx_def
      qualifier_rx_def number_rx_def grp_def rx_eval Lits.simps cong: bind_weak_cong)

lemma tokens_repeat:
  "feature_tokens features_repeat = [(u ''2'', u ''amb.'', []), (u ''3'', u ''amb.'', [])]"
  by (simp add: feature_tokens_def features_repeat_def feature_rx_def unit_rx_def
      qualifier_rx_def number_rx_def grp_def rx_eval Lits.simps cong: bind_weak_cong)

text \<open>
  C3. The feature string of the test suite yields exactly the five entries, each value
  the normalised digit string.
\<close>

theorem parse_features_example:
  "parse_features features_example =
     [(u ''square_meters_total_0'', u ''771''), (u ''rooms_0'', u ''8''),
      (u ''bedrooms_0'', u ''4''), (u ''bathrooms_0'', u ''3''), (u ''parking_0'', u ''1'')]"
  by (simp add: parse_features_def tokens_example) (simp add: features_eval Let_def)

text \<open>
  C2, as stated, fails: under IGNORECASE the final \<open>s\<close> of the unit also matches the long
  s (code point 383), which \<open>lower()\<close> leaves alone, so the unit is not one the table knows
  and its key gets no index. The two tokens of \<open>features_long_s\<close> give one key, and it
  has no suffix.
\<close>

theorem long_s_unit_gets_no_index:
  "length (feature_tokens features_long_s) = 2 \<and>
   parse_features features_long_s = [(u ''ba'' @ [241] @ u ''o'' @ [383], u ''2'')]"
  by (simp add: parse_features_def tokens_long_s) (simp add: features_eval Let_def)

text \<open>
  C2, amended. For a feature string without the long s, \<open>parse_features\<close> returns one
  entry per match of the pattern, in the order of the matches; entry number \<open>i\<close> has the
  key \<open>base_index\<close>, where \<open>base\<close> is the base field of match \<open>i\<close>, one of the eight known
  fields, and \<open>index\<close> the number of earlier matches with the same base field, and the
  value is the normalised number of the match. The keys are pairwise different.
\<close>

theorem parse_features_indexed:
  assumes "383 \<notin> set text"
  shows "parse_features text =
       map (\<lambda>i. (base_keys text ! i @ u ''_'' @
                    str_nat (count_list (take i (base_keys text)) (base_keys text ! i)),
                  normalize_number (fst (feature_tokens text ! i))))
         [0..<length (feature_tokens text)] \<and>
     length (parse_features text) = length (feature_tokens text) \<and>
     distinct (map fst (parse_features text)) \<and>
     set (base_keys text) \<subseteq> set (map fst features_appearance0)"
proof -
  have known: "base_key_of un q \<in> dom (map_of features_appearance0)"
    if "(v, un, q) \<in> set (feature_tokens text)" for v un q
  proof -
    from feature_tokens_unit[OF that] assms have "unit_word un" "383 \<notin> set un"
      by auto
    from base_key_known[OF normalize_unit_known[OF this]] show ?thesis .
  qed
  then have dom: "\<forall>t\<in>set (feature_tokens text).
      (case t of (v, un, q) \<Rightarrow> base_key_of un q) \<in> dom (map_of features_appearance0)"
    by auto
  have fresh: "\<forall>b n j. map_of features_appearance0 b = Some n \<longrightarrow> n \<le> j \<longrightarrow>
      b @ u ''_'' @ str_nat j \<notin> fst ` set ([] :: (ustr \<times> ustr) list)"
    by simp
  have zero: "the (map_of features_appearance0
        (base_key_of (fst (snd (feature_tokens text ! i))) (snd (snd (feature_tokens text ! i))))) = 0"
    if "i < length (feature_tokens text)" for i
  proof -
    from that have "feature_tokens text ! i \<in> set (feature_tokens text)" by simp
    then have "(fst (feature_tokens text ! i), fst (snd (feature_tokens text ! i)),
        snd (snd (feature_tokens text ! i))) \<in> set (feature_tokens text)"
      by simp
    from counters_start[OF known[OF this]] show ?thesis .
  qed
  have eq: "parse_features text =
       map (\<lambda>i. (base_keys text ! i @ u ''_'' @
                    str_nat (count_list (take i (base_keys text)) (base_keys text ! i)),
                  normalize_number (fst (feature_tokens text ! i))))
         [0..<length (feature_tokens text)]"
    unfolding parse_features_def features_loop_indexed[OF dom fresh]
    by (auto simp: base_keys_def case_prod_unfold zero)
  have "set (base_keys text) \<subseteq> set (map fst features_appearance0)"
    using dom by (auto simp: base_keys_def dom_map_of_conv_image_fst)
  moreover have "distinct (map fst (parse_features text))"
    unfolding parse_features_def by (rule distinct_features_loop) simp
  moreover have "length (parse_features text) = length (feature_tokens text)"
    by (subst eq) simp
  ultimately show ?thesis using eq by blast
qed

text \<open>Two tokens of the same unit: the indices are 0 and 1, in that order.\<close>

theorem parse_features_indexed_witness:
  "383 \<notin> set features_repeat \<and>
   parse_features features_repeat = [(u ''rooms_0'', u ''2''), (u ''rooms_1'', u ''3'')] \<and>
   length (parse_features features_repeat) = length (feature_tokens features_repeat)"
proof -
  have h: "383 \<notin> set features_repeat"
    by (simp add: features_repeat_def u_def)
  have bk: "base_keys features_repeat = [u ''rooms'', u ''rooms'']"
    by (simp add: base_keys_def tokens_repeat) (simp add: features_eval Let_def)
  from parse_features_indexed[OF h] h show ?thesis
    by (simp add: bk tokens_repeat str_nat_digit) (simp add: features_eval)
qed

end
